theory Spec2Isabelle
  imports Main "HOL-Library.Word" "HOL-Library.Char_ord" "HOL-Library.List_Lexorder"
begin

section \<open>The virtio-blk front end of the bridge (pkg/frontend/virtio.go)\<close>

text \<open>
  The six gRPC handlers of \<^verbatim>\<open>pkg/frontend/virtio.go\<close> are embedded as functions from
  the server state (and the request) to a result and the new server state. The state
  holds the two maps of the Go \<^verbatim>\<open>Server\<close> struct and, as a trace, the calls issued
  through \<^verbatim>\<open>s.rpc.Call\<close>. Every early return of the source is a branch of the model;
  a nil pointer dereference is the error \<open>Panic\<close>.
\<close>

subsection \<open>Machine integers\<close>

text \<open>
  \<^verbatim>\<open>int32\<close> and \<^verbatim>\<open>int64\<close> are words; Go's \<^verbatim>\<open>int\<close> is the 64-bit word of the
  platforms the bridge is built for. A conversion to a narrower type keeps the low bits,
  a conversion of a signed value to a wider type extends the sign.
\<close>

type_synonym int32 = "32 word"
type_synonym int64 = "64 word"
type_synonym go_int = "64 word"

definition int32_of_int :: "go_int \<Rightarrow> int32" where
  "int32_of_int x = ucast x"

definition int_of_int32 :: "int32 \<Rightarrow> go_int" where
  "int_of_int32 x = scast x"

definition int_of_int64 :: "int64 \<Rightarrow> go_int" where
  "int_of_int64 x = x"

subsection \<open>Messages of the API (the fields the handlers read or write)\<close>

record ObjectKey =
  Value :: string

record PciEndpoint =
  PortId :: int32
  PhysicalFunction :: int32
  VirtualFunction :: int32

text \<open>
  A pointer field of a message is an option: \<open>None\<close> is the nil pointer. The queue
  count \<open>MaxIoQps\<close> is taken as a 64-bit field; no property below depends on its width.
\<close>

record VirtioBlk =
  Name :: string
  PcieId :: "PciEndpoint option"
  VolumeId :: "ObjectKey option"
  MaxIoQps :: int64

record CreateVirtioBlkRequest =
  create_VirtioBlk :: "VirtioBlk option"
  VirtioBlkId :: string

record DeleteVirtioBlkRequest =
  delete_Name :: string
  delete_AllowMissing :: bool

record UpdateVirtioBlkRequest =
  update_VirtioBlk :: "VirtioBlk option"
  UpdateMask :: "string list option"
  update_AllowMissing :: bool

record ListVirtioBlksRequest =
  PageSize :: int32
  PageToken :: string

record ListVirtioBlksResponse =
  VirtioBlks :: "VirtioBlk list"
  NextPageToken :: string

record GetVirtioBlkRequest =
  get_Name :: string

record VirtioBlkStatsRequest =
  ControllerId :: "ObjectKey option"

record VolumeStats =
  ReadOpsCount :: int32
  WriteOpsCount :: int32

record VirtioBlkStatsResponse =
  stats_Id :: "ObjectKey option"
  Stats :: "VolumeStats option"

subsection \<open>Parameters and results of the backend calls (pkg/models)\<close>

record NvdaControllerVirtioBlkCreateParams =
  Serial :: string
  Bdev :: string
  PfID :: go_int
  NumQueues :: go_int
  BdevType :: string
  EmulationManager :: string

record NvdaControllerVirtioBlkDeleteParams =
  params_Name :: string
  Force :: bool

record NvdaControllerListResult =
  result_Name :: string
  Type :: string
  PciIndex :: go_int

record NvdaControllerNvmeStatsBdev =
  BdevName :: string
  ReadIos :: go_int
  WriteIos :: go_int

record NvdaControllerNvmeStatsController =
  Bdevs :: "NvdaControllerNvmeStatsBdev list"

record NvdaControllerNvmeStatsResult =
  Controllers :: "NvdaControllerNvmeStatsController list"

subsection \<open>Errors\<close>

text \<open>
  \<open>InvalidArgument\<close>, \<open>NotFound\<close> and \<open>Unimplemented\<close> are gRPC status errors with that
  code (\<^verbatim>\<open>status.Errorf\<close>); \<open>Errorf\<close> is a plain error made by \<^verbatim>\<open>fmt.Errorf\<close>, which
  carries no status code; \<open>Other\<close> stands for the errors that the validators and the
  transport make; \<open>Panic\<close> is a run-time panic. The handlers pass an already formatted
  message to \<^verbatim>\<open>status.Errorf\<close> as its format; the identifiers and names in these
  messages have passed the validators of the AIP library, which admit no percent sign,
  so the message of the error is that text.
\<close>

datatype error =
    InvalidArgument string
  | NotFound string
  | Unimplemented string
  | Errorf string
  | Other string
  | Panic string

subsection \<open>The collaborators outside the repository\<close>

text \<open>
  The validators of the AIP library and the naming function of the SPDK bridge are not
  part of this repository: the handlers are parameterised by them. A validator returns
  \<open>None\<close> for Go's nil error.
\<close>

record library =
  ValidateUserSettable :: "string \<Rightarrow> error option"
  ValidateRequiredFields_Delete :: "DeleteVirtioBlkRequest \<Rightarrow> error option"
  ValidateRequiredFields_Get :: "GetVirtioBlkRequest \<Rightarrow> error option"
  resourcename_Validate :: "string \<Rightarrow> error option"
  fieldmask_Validate :: "string list option \<Rightarrow> VirtioBlk \<Rightarrow> error option"
  ResourceIDToVolumeName :: "string \<Rightarrow> string"
  maxPageSize :: int

text \<open>
  The backend answers one call of \<^verbatim>\<open>s.rpc.Call\<close> with a transport error (\<open>Inl\<close>) or a
  decoded result (\<open>Inr\<close>). A handler makes at most one call, so the backend of one
  request is its answer to each of the four methods.
\<close>

record backend =
  controller_virtio_blk_create :: "NvdaControllerVirtioBlkCreateParams \<Rightarrow> error + string"
  controller_virtio_blk_delete :: "NvdaControllerVirtioBlkDeleteParams \<Rightarrow> error + bool"
  controller_list :: "error + NvdaControllerListResult list"
  controller_virtio_blk_get_iostat :: "error + NvdaControllerNvmeStatsResult"

datatype rpc_call =
    Call_controller_virtio_blk_create NvdaControllerVirtioBlkCreateParams
  | Call_controller_virtio_blk_delete NvdaControllerVirtioBlkDeleteParams
  | Call_controller_list
  | Call_controller_virtio_blk_get_iostat

subsection \<open>The server state\<close>

text \<open>
  \<open>VirtioCtrls\<close> is the Controller Registry and \<open>Pagination\<close> the cursor store;
  \<open>rpc_calls\<close> lists the backend calls issued so far, oldest first.
\<close>

record server =
  VirtioCtrls :: "string \<rightharpoonup> VirtioBlk"
  Pagination :: "string \<rightharpoonup> int"
  rpc_calls :: "rpc_call list"

definition rpc_Call :: "rpc_call \<Rightarrow> server \<Rightarrow> server" where
  "rpc_Call c s = s\<lparr>rpc_calls := rpc_calls s @ [c]\<rparr>"

subsection \<open>Go's path.Base and sort.Slice\<close>

text \<open>
  \<^verbatim>\<open>path.Base\<close>: the empty path gives \<^verbatim>\<open>.\<close>; trailing slashes are removed; what follows
  the last slash is returned, and \<^verbatim>\<open>/\<close> when nothing is left.
\<close>

definition path_Base :: "string \<Rightarrow> string" where
  "path_Base p =
     (if p = [] then ''.''
      else let q = rev (dropWhile (\<lambda>c. c = CHR ''/'') (rev p));
               r = rev (takeWhile (\<lambda>c. c \<noteq> CHR ''/'') (rev q))
           in if r = [] then ''/'' else r)"

text \<open>
  \<^verbatim>\<open>sortVirtioBlks\<close> sorts by \<open>Name\<close> with Go's \<^verbatim>\<open><\<close> on strings, the lexicographic
  order of the bytes. \<^verbatim>\<open>sort.Slice\<close> promises a sorted permutation and no order among
  equal names; the model keeps equal names in their order.
\<close>

definition sortVirtioBlks :: "VirtioBlk list \<Rightarrow> VirtioBlk list" where
  "sortVirtioBlks virtioBlks = sort_key Name virtioBlks"

subsection \<open>CreateVirtioBlk\<close>

text \<open>
  Lines 40 to 49: the resource ID is the caller's \<open>VirtioBlkId\<close> when it is not empty
  and the freshly generated one (\<open>gen\<close>, the value \<^verbatim>\<open>resourceid.NewSystemGenerated\<close>
  returned for this request) otherwise. Line 50 derives the canonical name from it.
\<close>

definition create_resourceID :: "string \<Rightarrow> CreateVirtioBlkRequest \<Rightarrow> string" where
  "create_resourceID gen req = (if VirtioBlkId req \<noteq> [] then VirtioBlkId req else gen)"

definition create_name :: "library \<Rightarrow> string \<Rightarrow> CreateVirtioBlkRequest \<Rightarrow> string" where
  "create_name lib gen req = ResourceIDToVolumeName lib (create_resourceID gen req)"

text \<open>
  A request reaches the registry lookup of line 52 when it carries the controller message
  and its identifier, if it has one, passes the check of line 42.
\<close>

definition create_accepted :: "library \<Rightarrow> CreateVirtioBlkRequest \<Rightarrow> bool" where
  "create_accepted lib req =
     (create_VirtioBlk req \<noteq> None \<and>
      (VirtioBlkId req = [] \<or> ValidateUserSettable lib (VirtioBlkId req) = None))"

definition CreateVirtioBlk ::
  "library \<Rightarrow> backend \<Rightarrow> string \<Rightarrow> server \<Rightarrow> CreateVirtioBlkRequest
     \<Rightarrow> (error + VirtioBlk) \<times> server" where
  "CreateVirtioBlk lib bk gen s req =
     (case (if VirtioBlkId req \<noteq> [] then ValidateUserSettable lib (VirtioBlkId req) else None) of
        Some err \<Rightarrow> (Inl err, s)
      | None \<Rightarrow>
     (case create_VirtioBlk req of
        None \<Rightarrow> (Inl (Panic ''nil pointer dereference''), s)
      | Some blk0 \<Rightarrow>
     (let resourceID = create_resourceID gen req;
          blk = blk0\<lparr>Name := ResourceIDToVolumeName lib resourceID\<rparr>
      in case VirtioCtrls s (Name blk) of
        Some controller \<Rightarrow> (Inr controller, s)
      | None \<Rightarrow>
     (case VolumeId blk of
        None \<Rightarrow> (Inl (Panic ''nil pointer dereference''), s)
      | Some vol \<Rightarrow>
     (case PcieId blk of
        None \<Rightarrow> (Inl (Panic ''nil pointer dereference''), s)
      | Some pcie \<Rightarrow>
     (let params = \<lparr>Serial = resourceID, Bdev = Value vol,
                     PfID = int_of_int32 (PhysicalFunction pcie),
                     NumQueues = int_of_int64 (MaxIoQps blk),
                     BdevType = ''spdk'', EmulationManager = ''mlx5_0''\<rparr>;
          s1 = rpc_Call (Call_controller_virtio_blk_create params) s
      in case controller_virtio_blk_create bk params of
        Inl err \<Rightarrow> (Inl err, s1)
      | Inr result \<Rightarrow>
          if result = []
          then (Inl (InvalidArgument (''Could not create virtio-blk: '' @ resourceID)), s1)
          else (Inr blk, s1\<lparr>VirtioCtrls := (VirtioCtrls s1)(Name blk \<mapsto> blk)\<rparr>)))))))"

subsection \<open>DeleteVirtioBlk\<close>

text \<open>
  The boolean result of the backend is only logged (lines 117 to 119); the entry that is
  deleted from the map is the one under the \<open>Name\<close> of the stored controller (line 120).
\<close>

definition DeleteVirtioBlk ::
  "library \<Rightarrow> backend \<Rightarrow> server \<Rightarrow> DeleteVirtioBlkRequest \<Rightarrow> (error + unit) \<times> server" where
  "DeleteVirtioBlk lib bk s req =
     (case ValidateRequiredFields_Delete lib req of
        Some err \<Rightarrow> (Inl err, s)
      | None \<Rightarrow>
     (case resourcename_Validate lib (delete_Name req) of
        Some err \<Rightarrow> (Inl err, s)
      | None \<Rightarrow>
     (case VirtioCtrls s (delete_Name req) of
        None \<Rightarrow>
          if delete_AllowMissing req then (Inr (), s)
          else (Inl (Errorf (''error finding controller '' @ delete_Name req)), s)
      | Some controller \<Rightarrow>
     (let params = \<lparr>params_Name = delete_Name req, Force = True\<rparr>;
          s1 = rpc_Call (Call_controller_virtio_blk_delete params) s
      in case controller_virtio_blk_delete bk params of
        Inl err \<Rightarrow> (Inl err, s1)
      | Inr result \<Rightarrow>
          (Inr (), s1\<lparr>VirtioCtrls := (VirtioCtrls s1)(Name controller := None)\<rparr>)))))"

subsection \<open>UpdateVirtioBlk\<close>

text \<open>The handler never reaches \<^verbatim>\<open>s.rpc\<close>, so it takes no backend.\<close>

definition UpdateVirtioBlk ::
  "library \<Rightarrow> server \<Rightarrow> UpdateVirtioBlkRequest \<Rightarrow> (error + VirtioBlk) \<times> server" where
  "UpdateVirtioBlk lib s req =
     (case update_VirtioBlk req of
        None \<Rightarrow> (Inl (Panic ''nil pointer dereference''), s)
      | Some blk \<Rightarrow>
     (case resourcename_Validate lib (Name blk) of
        Some err \<Rightarrow> (Inl err, s)
      | None \<Rightarrow>
     (case VirtioCtrls s (Name blk) of
        None \<Rightarrow> (Inl (NotFound (''unable to find key '' @ Name blk)), s)
      | Some volume \<Rightarrow>
     (case fieldmask_Validate lib (UpdateMask req) blk of
        Some err \<Rightarrow> (Inl err, s)
      | None \<Rightarrow>
          (Inl (Unimplemented ''UpdateVirtioBlk method is not implemented''), s)))))"

subsection \<open>The pagination helpers\<close>

text \<open>
  Modelled from the spec: \<^verbatim>\<open>server.ExtractPagination\<close> of the SPDK bridge is not among
  the sources. The spec, section 4.4 step 1: a supplied token must resolve through the
  cursor store to a prior offset and an unresolvable token is a client error; without a
  token the offset is zero; the size defaults to the server-configured maximum when it is
  unspecified or out of bounds.
\<close>

definition ExtractPagination ::
  "int \<Rightarrow> int32 \<Rightarrow> string \<Rightarrow> (string \<rightharpoonup> int) \<Rightarrow> error + (int \<times> int)" where
  "ExtractPagination maxSize pageSize pageToken pagination =
     (let sz = (if sint pageSize \<le> 0 \<or> maxSize < sint pageSize then maxSize
                  else sint pageSize)
      in if pageToken = [] then Inr (sz, 0)
         else case pagination pageToken of
                None \<Rightarrow> Inl (Other (''unable to find pagination token '' @ pageToken))
              | Some offset \<Rightarrow> Inr (sz, offset))"

text \<open>
  Modelled from the spec: \<^verbatim>\<open>server.LimitPagination\<close> of the SPDK bridge is not among the
  sources. The spec, section 4.4 step 4: the window holds the entries from \<open>offset\<close> up
  to \<open>offset + size\<close>, and more entries remain when the listing goes beyond the window.
  A window that starts outside the listing is a slice out of bounds, a panic in Go.
\<close>

definition LimitPagination :: "'a list \<Rightarrow> int \<Rightarrow> int \<Rightarrow> error + ('a list \<times> bool)" where
  "LimitPagination result offset sz =
     (let hasMoreElements = offset + sz < int (length result);
          e = (if hasMoreElements then offset + sz else int (length result))
      in if offset < 0 \<or> e < offset then Inl (Panic ''slice bounds out of range'')
         else Inr (take (nat (e - offset)) (drop (nat offset) result), hasMoreElements))"

subsection \<open>ListVirtioBlks and GetVirtioBlk\<close>

text \<open>
  The message that both handlers build from an entry of the backend listing (lines 179
  to 182 and 221 to 224); the fields that the literal leaves out are zero.
\<close>

definition is_virtio_blk :: "NvdaControllerListResult \<Rightarrow> bool" where
  "is_virtio_blk r = (Type r = ''virtio_blk'')"

definition virtioBlk_of :: "library \<Rightarrow> NvdaControllerListResult \<Rightarrow> VirtioBlk" where
  "virtioBlk_of lib r =
     \<lparr>Name = ResourceIDToVolumeName lib (result_Name r),
      PcieId = Some \<lparr>PortId = 0, PhysicalFunction = int32_of_int (PciIndex r),
                     VirtualFunction = 0\<rparr>,
      VolumeId = Some \<lparr>Value = ''TBD''\<rparr>,
      MaxIoQps = 0\<rparr>"

text \<open>
  \<open>uuid\<close> is the string of the UUID drawn for this request. The window is cut from the
  listing as the backend sent it (line 170), the token is stored (line 173), and only then
  are the entries of the window filtered by type (line 178). The response literal of line
  187 sets \<open>VirtioBlks\<close> alone, so \<open>NextPageToken\<close> is the empty string.
\<close>

definition ListVirtioBlks ::
  "library \<Rightarrow> backend \<Rightarrow> string \<Rightarrow> server \<Rightarrow> ListVirtioBlksRequest
     \<Rightarrow> (error + ListVirtioBlksResponse) \<times> server" where
  "ListVirtioBlks lib bk uuid s req =
     (case ExtractPagination (maxPageSize lib) (PageSize req) (PageToken req) (Pagination s) of
        Inl perr \<Rightarrow> (Inl perr, s)
      | Inr (sz, offset) \<Rightarrow>
     (let s1 = rpc_Call Call_controller_list s
      in case controller_list bk of
        Inl err \<Rightarrow> (Inl err, s1)
      | Inr result \<Rightarrow>
     (case LimitPagination result offset sz of
        Inl err \<Rightarrow> (Inl err, s1)
      | Inr (window, hasMoreElements) \<Rightarrow>
     (let s2 = (if hasMoreElements
                then s1\<lparr>Pagination := (Pagination s1)(uuid \<mapsto> offset + sz)\<rparr>
                else s1);
          Blobarray = map (virtioBlk_of lib) (filter is_virtio_blk window)
      in (Inr \<lparr>VirtioBlks = sortVirtioBlks Blobarray, NextPageToken = []\<rparr>, s2)))))"

definition GetVirtioBlk ::
  "library \<Rightarrow> backend \<Rightarrow> server \<Rightarrow> GetVirtioBlkRequest \<Rightarrow> (error + VirtioBlk) \<times> server" where
  "GetVirtioBlk lib bk s req =
     (case ValidateRequiredFields_Get lib req of
        Some err \<Rightarrow> (Inl err, s)
      | None \<Rightarrow>
     (case resourcename_Validate lib (get_Name req) of
        Some err \<Rightarrow> (Inl err, s)
      | None \<Rightarrow>
     (case VirtioCtrls s (get_Name req) of
        None \<Rightarrow> (Inl (InvalidArgument (''Could not find Controller: '' @ get_Name req)), s)
      | Some _ \<Rightarrow>
     (let s1 = rpc_Call Call_controller_list s
      in case controller_list bk of
        Inl err \<Rightarrow> (Inl err, s1)
      | Inr result \<Rightarrow>
     (let resourceID = path_Base (get_Name req)
      in case find (\<lambda>r. result_Name r = resourceID \<and> Type r = ''virtio_blk'') result of
        Some r \<Rightarrow> (Inr (virtioBlk_of lib r), s1)
      | None \<Rightarrow>
          (Inl (InvalidArgument (''Could not find Controller: '' @ get_Name req)), s1))))))"

subsection \<open>VirtioBlkStats\<close>

text \<open>
  The two nested loops of lines 248 to 257: the controllers in order, the devices of each
  in order, returning at the first device whose name is the requested one.
\<close>

fun find_bdev ::
  "string \<Rightarrow> NvdaControllerNvmeStatsController list \<Rightarrow> NvdaControllerNvmeStatsBdev option" where
  "find_bdev ident [] = None"
| "find_bdev ident (c # cs) =
     (case find (\<lambda>r. BdevName r = ident) (Bdevs c) of
        Some r \<Rightarrow> Some r
      | None \<Rightarrow> find_bdev ident cs)"

definition VirtioBlkStats ::
  "library \<Rightarrow> backend \<Rightarrow> server \<Rightarrow> VirtioBlkStatsRequest
     \<Rightarrow> (error + VirtioBlkStatsResponse) \<times> server" where
  "VirtioBlkStats lib bk s req =
     (case ControllerId req of
        None \<Rightarrow> (Inl (Panic ''nil pointer dereference''), s)
      | Some cid \<Rightarrow>
     (case resourcename_Validate lib (Value cid) of
        Some err \<Rightarrow> (Inl err, s)
      | None \<Rightarrow>
     (let s1 = rpc_Call Call_controller_virtio_blk_get_iostat s
      in case controller_virtio_blk_get_iostat bk of
        Inl err \<Rightarrow> (Inl err, s1)
      | Inr result \<Rightarrow>
     (case find_bdev (Value cid) (Controllers result) of
        Some r \<Rightarrow>
          (Inr \<lparr>stats_Id = ControllerId req,
                Stats = Some \<lparr>ReadOpsCount = int32_of_int (ReadIos r),
                               WriteOpsCount = int32_of_int (WriteIos r)\<rparr>\<rparr>, s1)
      | None \<Rightarrow>
          (Inl (InvalidArgument (''Could not find Controller: '' @ Value cid)), s1)))))"

subsection \<open>Fixed collaborators for running the handlers\<close>

text \<open>
  One choice of the outside functions, to evaluate the handlers on concrete requests: an
  identifier or a name is accepted when it is not empty, a required name must be present,
  every field mask is accepted, and a resource ID is named under the volumes collection.
\<close>

definition nonempty :: "string \<Rightarrow> error option" where
  "nonempty x = (if x = [] then Some (InvalidArgument ''empty'') else None)"

definition lib0 :: library where
  "lib0 = \<lparr>ValidateUserSettable = nonempty,
           ValidateRequiredFields_Delete = (\<lambda>r. nonempty (delete_Name r)),
           ValidateRequiredFields_Get = (\<lambda>r. nonempty (get_Name r)),
           resourcename_Validate = nonempty,
           fieldmask_Validate = (\<lambda>m b. None),
           ResourceIDToVolumeName = (\<lambda>i. ''//storage.opiproject.org/volumes/'' @ i),
           maxPageSize = 250\<rparr>"

text \<open>A listing of three devices, the first of which is not a virtio-blk controller.\<close>

definition listing0 :: "NvdaControllerListResult list" where
  "listing0 =
     [\<lparr>result_Name = ''a'', Type = ''nvme'', PciIndex = 0\<rparr>,
      \<lparr>result_Name = ''c'', Type = ''virtio_blk'', PciIndex = 2\<rparr>,
      \<lparr>result_Name = ''b'', Type = ''virtio_blk'', PciIndex = 1\<rparr>]"

definition stats0 :: NvdaControllerNvmeStatsResult where
  "stats0 =
     \<lparr>Controllers =
        [\<lparr>Bdevs = [\<lparr>BdevName = ''x'', ReadIos = 1, WriteIos = 2\<rparr>]\<rparr>,
         \<lparr>Bdevs = [\<lparr>BdevName = ''y'', ReadIos = 3, WriteIos = 4\<rparr>,
                    \<lparr>BdevName = ''b'', ReadIos = 5, WriteIos = 6\<rparr>]\<rparr>]\<rparr>"

text \<open>
  A backend that answers a create call with \<open>created\<close>, a delete call with \<open>deleted\<close>,
  and the two queries with \<open>listing0\<close> and \<open>stats0\<close>.
\<close>

definition bk0 :: "string \<Rightarrow> bool \<Rightarrow> backend" where
  "bk0 created deleted =
     \<lparr>controller_virtio_blk_create = (\<lambda>p. Inr created),
      controller_virtio_blk_delete = (\<lambda>p. Inr deleted),
      controller_list = Inr listing0,
      controller_virtio_blk_get_iostat = Inr stats0\<rparr>"

definition blk0 :: VirtioBlk where
  "blk0 = \<lparr>Name = ''ignored'',
           PcieId = Some \<lparr>PortId = 0, PhysicalFunction = 42, VirtualFunction = 0\<rparr>,
           VolumeId = Some \<lparr>Value = ''Malloc42''\<rparr>,
           MaxIoQps = 1\<rparr>"

definition name0 :: string where
  "name0 = ''//storage.opiproject.org/volumes/b''"

definition req0 :: CreateVirtioBlkRequest where
  "req0 = \<lparr>create_VirtioBlk = Some blk0, VirtioBlkId = ''b''\<rparr>"

definition del0 :: "bool \<Rightarrow> DeleteVirtioBlkRequest" where
  "del0 allow = \<lparr>delete_Name = name0, delete_AllowMissing = allow\<rparr>"

definition upd0 :: "string \<Rightarrow> bool \<Rightarrow> UpdateVirtioBlkRequest" where
  "upd0 n allow = \<lparr>update_VirtioBlk = Some (blk0\<lparr>Name := n\<rparr>), UpdateMask = None,
                   update_AllowMissing = allow\<rparr>"


text \<open>The state of a fresh server, and a state with one registered controller.\<close>

definition server0 :: server where
  "server0 = \<lparr>VirtioCtrls = Map.empty, Pagination = Map.empty, rpc_calls = []\<rparr>"

definition server1 :: server where
  "server1 = server0\<lparr>VirtioCtrls := [name0 \<mapsto> blk0\<lparr>Name := name0\<rparr>]\<rparr>"

text \<open>A listing of three virtio-blk controllers, and the backend that answers with a given listing.\<close>

definition listing1 :: "NvdaControllerListResult list" where
  "listing1 =
     [\<lparr>result_Name = ''c'', Type = ''virtio_blk'', PciIndex = 2\<rparr>,
      \<lparr>result_Name = ''a'', Type = ''virtio_blk'', PciIndex = 0\<rparr>,
      \<lparr>result_Name = ''b'', Type = ''virtio_blk'', PciIndex = 1\<rparr>]"

definition bk_list :: "NvdaControllerListResult list \<Rightarrow> backend" where
  "bk_list listing = (bk0 [] True)\<lparr>controller_list := Inr listing\<rparr>"

definition list0 :: "int32 \<Rightarrow> string \<Rightarrow> ListVirtioBlksRequest" where
  "list0 n tok = \<lparr>PageSize = n, PageToken = tok\<rparr>"

definition get0 :: "string \<Rightarrow> GetVirtioBlkRequest" where
  "get0 n = \<lparr>get_Name = n\<rparr>"

definition stats_req0 :: "string \<Rightarrow> VirtioBlkStatsRequest" where
  "stats_req0 n = \<lparr>ControllerId = Some \<lparr>Value = n\<rparr>\<rparr>"

text \<open>
  Statistics whose one device has seen \<open>2 ^ 31\<close> reads, and the backend that answers
  with given statistics.
\<close>

definition stats_wrap :: NvdaControllerNvmeStatsResult where
  "stats_wrap =
     \<lparr>Controllers = [\<lparr>Bdevs = [\<lparr>BdevName = ''b'', ReadIos = 2147483648, WriteIos = 6\<rparr>]\<rparr>]\<rparr>"

definition bk_stats :: "NvdaControllerNvmeStatsResult \<Rightarrow> backend" where
  "bk_stats result = (bk0 [] True)\<lparr>controller_virtio_blk_get_iostat := Inr result\<rparr>"

text \<open>A state in which the name of the device \<open>a\<close> of \<open>listing0\<close> is registered.\<close>

definition name_a :: string where
  "name_a = ''//storage.opiproject.org/volumes/a''"

definition server_a :: server where
  "server_a = server0\<lparr>VirtioCtrls := [name_a \<mapsto> blk0\<lparr>Name := name_a\<rparr>]\<rparr>"

subsection \<open>Notions used to state the properties\<close>

text \<open>
  The condition of line 220 on an entry of the listing, for the request name \<open>n\<close>: its
  name is the last path segment of \<open>n\<close> and its type is virtio-blk.
\<close>

definition name_matches :: "string \<Rightarrow> NvdaControllerListResult \<Rightarrow> bool" where
  "name_matches n r = (result_Name r = path_Base n \<and> Type r = ''virtio_blk'')"

text \<open>The device entries of the statistics, controller by controller.\<close>

definition all_bdevs :: "NvdaControllerNvmeStatsResult \<Rightarrow> NvdaControllerNvmeStatsBdev list" where
  "all_bdevs result = concat (map Bdevs (Controllers result))"

subsection \<open>The invariant of the Controller Registry\<close>

text \<open>Every controller is stored under its own name.\<close>

definition registry_inv :: "server \<Rightarrow> bool" where
  "registry_inv s = (\<forall>k c. VirtioCtrls s k = Some c \<longrightarrow> Name c = k)"

text \<open>
  The states that a server goes through: it starts with empty maps, and each request
  takes it to the state that its handler returns, whatever the backend answers.
\<close>

inductive reachable :: "library \<Rightarrow> server \<Rightarrow> bool" for lib :: library where
  fresh: "reachable lib server0"
| create: "reachable lib s \<Longrightarrow> reachable lib (snd (CreateVirtioBlk lib bk gen s req))"
| delete: "reachable lib s \<Longrightarrow> reachable lib (snd (DeleteVirtioBlk lib bk s dreq))"
| update: "reachable lib s \<Longrightarrow> reachable lib (snd (UpdateVirtioBlk lib s ureq))"
| list: "reachable lib s \<Longrightarrow> reachable lib (snd (ListVirtioBlks lib bk uuid s lreq))"
| get: "reachable lib s \<Longrightarrow> reachable lib (snd (GetVirtioBlk lib bk s greq))"
| stats: "reachable lib s \<Longrightarrow> reachable lib (snd (VirtioBlkStats lib bk s sreq))"

section \<open>Properties\<close>

subsection \<open>Facts about CreateVirtioBlk and the registry\<close>

lemma CreateVirtioBlk_existing:
  assumes "create_accepted lib req"
      and "VirtioCtrls s (create_name lib gen req) = Some c"
  shows "CreateVirtioBlk lib bk gen s req = (Inr c, s)"
  using assms by (auto simp: CreateVirtioBlk_def create_accepted_def create_name_def)

lemma CreateVirtioBlk_success:
  assumes "CreateVirtioBlk lib bk gen s req = (Inr r, s')"
  shows "create_accepted lib req \<and> VirtioCtrls s' (create_name lib gen req) = Some r"
  using assms
  by (auto simp: CreateVirtioBlk_def create_accepted_def create_name_def rpc_Call_def Let_def
           split: option.splits sum.splits if_splits)

lemma CreateVirtioBlk_fresh:
  assumes "create_VirtioBlk req = Some blk"
      and "VirtioBlkId req = [] \<or> ValidateUserSettable lib (VirtioBlkId req) = None"
      and "VolumeId blk = Some vol" and "PcieId blk = Some pcie"
      and "VirtioCtrls s (create_name lib gen req) = None"
      and "params = \<lparr>Serial = create_resourceID gen req, Bdev = Value vol,
                      PfID = int_of_int32 (PhysicalFunction pcie),
                      NumQueues = int_of_int64 (MaxIoQps blk),
                      BdevType = ''spdk'', EmulationManager = ''mlx5_0''\<rparr>"
      and "controller_virtio_blk_create bk params = Inr result"
  shows "CreateVirtioBlk lib bk gen s req =
           (if result = []
            then (Inl (InvalidArgument (''Could not create virtio-blk: '' @ create_resourceID gen req)),
                  rpc_Call (Call_controller_virtio_blk_create params) s)
            else (Inr (blk\<lparr>Name := create_name lib gen req\<rparr>),
                  (rpc_Call (Call_controller_virtio_blk_create params) s)
                    \<lparr>VirtioCtrls := (VirtioCtrls s)(create_name lib gen req \<mapsto>
                                         blk\<lparr>Name := create_name lib gen req\<rparr>)\<rparr>))"
  using assms
  by (auto simp: CreateVirtioBlk_def create_name_def rpc_Call_def Let_def)

text \<open>
  The registry invariant holds in the fresh server, and the two handlers that write the
  registry keep it; the other handlers leave the registry as it is.
\<close>

lemma registry_inv_server0: "registry_inv server0"
  by (simp add: registry_inv_def server0_def)

lemma registry_inv_CreateVirtioBlk:
  assumes "registry_inv s"
  shows "registry_inv (snd (CreateVirtioBlk lib bk gen s req))"
  using assms
  by (auto simp: CreateVirtioBlk_def registry_inv_def rpc_Call_def Let_def
           split: option.splits sum.splits if_splits)

lemma registry_inv_DeleteVirtioBlk:
  assumes "registry_inv s"
  shows "registry_inv (snd (DeleteVirtioBlk lib bk s req))"
  using assms
  by (auto simp: DeleteVirtioBlk_def registry_inv_def rpc_Call_def Let_def
           split: option.splits sum.splits if_splits)

text \<open>Hence the invariant holds in every state that a server goes through.\<close>

lemma snd_UpdateVirtioBlk: "snd (UpdateVirtioBlk lib s req) = s"
  by (simp add: UpdateVirtioBlk_def split: option.splits)

lemma VirtioCtrls_rpc_Call: "VirtioCtrls (rpc_Call c s) = VirtioCtrls s"
  by (simp add: rpc_Call_def)

lemma VirtioCtrls_ListVirtioBlks:
  "VirtioCtrls (snd (ListVirtioBlks lib bk uuid s req)) = VirtioCtrls s"
  by (simp add: ListVirtioBlks_def rpc_Call_def Let_def split: sum.splits prod.splits)

lemma VirtioCtrls_GetVirtioBlk:
  "VirtioCtrls (snd (GetVirtioBlk lib bk s req)) = VirtioCtrls s"
  by (simp add: GetVirtioBlk_def rpc_Call_def Let_def split: sum.splits option.splits)

lemma VirtioCtrls_VirtioBlkStats:
  "VirtioCtrls (snd (VirtioBlkStats lib bk s req)) = VirtioCtrls s"
  by (simp add: VirtioBlkStats_def rpc_Call_def Let_def split: sum.splits option.splits)

lemma reachable_registry_inv:
  assumes "reachable lib s"
  shows "registry_inv s"
  using assms
proof (induction rule: reachable.induct)
  case fresh
  show ?case by (rule registry_inv_server0)
next
  case (create s bk gen req)
  then show ?case by (simp add: registry_inv_CreateVirtioBlk)
next
  case (delete s bk dreq)
  then show ?case by (simp add: registry_inv_DeleteVirtioBlk)
next
  case (update s ureq)
  then show ?case by (simp add: snd_UpdateVirtioBlk)
next
  case (list s bk uuid lreq)
  then show ?case by (simp add: registry_inv_def VirtioCtrls_ListVirtioBlks)
next
  case (get s bk greq)
  then show ?case by (simp add: registry_inv_def VirtioCtrls_GetVirtioBlk)
next
  case (stats s bk sreq)
  then show ?case by (simp add: registry_inv_def VirtioCtrls_VirtioBlkStats)
qed

lemma DeleteVirtioBlk_present:
  assumes "ValidateRequiredFields_Delete lib req = None"
      and "resourcename_Validate lib (delete_Name req) = None"
      and "VirtioCtrls s (delete_Name req) = Some c"
      and "controller_virtio_blk_delete bk \<lparr>params_Name = delete_Name req, Force = True\<rparr> = Inr result"
  shows "DeleteVirtioBlk lib bk s req =
           (Inr (), (rpc_Call (Call_controller_virtio_blk_delete
                                 \<lparr>params_Name = delete_Name req, Force = True\<rparr>) s)
                      \<lparr>VirtioCtrls := (VirtioCtrls s)(Name c := None)\<rparr>)"
  using assms by (simp add: DeleteVirtioBlk_def rpc_Call_def Let_def)

lemma registry_inv_server1: "registry_inv server1"
  by (simp add: registry_inv_def server1_def server0_def)

lemma create_accepted_req0: "create_accepted lib0 req0"
  by (simp add: create_accepted_def req0_def lib0_def nonempty_def)

lemma create_name_req0: "create_name lib0 gen req0 = name0"
  by (simp add: create_name_def create_resourceID_def req0_def lib0_def name0_def)

subsection \<open>Idempotent create\<close>

text \<open>
  C1. For every state of the registry and every accepted Create request whose derived
  name has an entry, Create returns the stored controller and the state is the one before
  the call: the registry is unchanged and no backend call is added to the trace. Hence,
  when a Create has returned a controller, any later accepted Create with the same
  derived name, whatever its payload and whatever the backend would answer, returns the
  same controller and leaves the state as the first call left it.
\<close>

theorem CreateVirtioBlk_idempotent:
  assumes "create_accepted lib req"
  shows "(VirtioCtrls s (create_name lib gen req) = Some c \<longrightarrow>
            CreateVirtioBlk lib bk gen s req = (Inr c, s)) \<and>
         (CreateVirtioBlk lib bk gen s req = (Inr r, s1) \<and> create_accepted lib req2 \<and>
          create_name lib gen2 req2 = create_name lib gen req \<longrightarrow>
            CreateVirtioBlk lib bk2 gen2 s1 req2 = (Inr r, s1))"
proof (intro conjI impI)
  assume "VirtioCtrls s (create_name lib gen req) = Some c"
  with assms show "CreateVirtioBlk lib bk gen s req = (Inr c, s)"
    by (rule CreateVirtioBlk_existing)
next
  assume a: "CreateVirtioBlk lib bk gen s req = (Inr r, s1) \<and> create_accepted lib req2 \<and>
             create_name lib gen2 req2 = create_name lib gen req"
  then have "VirtioCtrls s1 (create_name lib gen2 req2) = Some r"
    using CreateVirtioBlk_success [of lib bk gen s req r s1] by simp
  with a show "CreateVirtioBlk lib bk2 gen2 s1 req2 = (Inr r, s1)"
    by (simp add: CreateVirtioBlk_existing)
qed

text \<open>
  On the server with \<open>name0\<close> registered, a Create for the identifier \<open>b\<close> returns the
  stored controller although the backend would answer with the empty result; and after a
  first Create on the fresh server, a second one returns the same pair of result and state.
\<close>

theorem CreateVirtioBlk_idempotent_witness:
  "CreateVirtioBlk lib0 (bk0 [] True) ''g1'' server1 req0 = (Inr (blk0\<lparr>Name := name0\<rparr>), server1) \<and>
   CreateVirtioBlk lib0 (bk0 [] True) ''g2''
      (snd (CreateVirtioBlk lib0 (bk0 ''VblkEmu0pf0'' True) ''g1'' server0 req0)) req0 =
   CreateVirtioBlk lib0 (bk0 ''VblkEmu0pf0'' True) ''g1'' server0 req0 \<and>
   fst (CreateVirtioBlk lib0 (bk0 ''VblkEmu0pf0'' True) ''g1'' server0 req0) = Inr (blk0\<lparr>Name := name0\<rparr>)"
proof -
  have reg: "VirtioCtrls server1 (create_name lib0 ''g1'' req0) = Some (blk0\<lparr>Name := name0\<rparr>)"
    by (simp add: create_name_req0 server1_def server0_def)
  have first: "CreateVirtioBlk lib0 (bk0 [] True) ''g1'' server1 req0 = (Inr (blk0\<lparr>Name := name0\<rparr>), server1)"
    using CreateVirtioBlk_idempotent [OF create_accepted_req0, of server1 "''g1''"] reg by blast
  obtain res s1 where run: "CreateVirtioBlk lib0 (bk0 ''VblkEmu0pf0'' True) ''g1'' server0 req0 = (res, s1)"
    by (cases "CreateVirtioBlk lib0 (bk0 ''VblkEmu0pf0'' True) ''g1'' server0 req0")
  have res: "res = Inr (blk0\<lparr>Name := name0\<rparr>)"
    using run
    by (simp add: CreateVirtioBlk_def req0_def lib0_def nonempty_def create_resourceID_def
        server0_def bk0_def blk0_def name0_def rpc_Call_def Let_def)
  have "CreateVirtioBlk lib0 (bk0 [] True) ''g2'' s1 req0 = (Inr (blk0\<lparr>Name := name0\<rparr>), s1)"
    using CreateVirtioBlk_idempotent [OF create_accepted_req0,
        of server0 "''g1''" _ "bk0 ''VblkEmu0pf0'' True" "blk0\<lparr>Name := name0\<rparr>" s1 req0 "''g2''"]
      run res create_accepted_req0 by (simp add: create_name_req0)
  with first run res show ?thesis by simp
qed

subsection \<open>Create and the result of the backend\<close>

text \<open>
  C4. For an accepted Create request with its volume and PCI endpoint set and a derived
  name that is not registered, when the backend call returns a result without a transport
  error: an empty result makes Create fail with InvalidArgument and the message
  "Could not create virtio-blk: " followed by the resource ID, and the registry is the
  one before the call; a result that is not empty makes Create return the request's
  controller under its canonical name and store that controller under this name.
\<close>

theorem CreateVirtioBlk_backend_result:
  assumes "create_VirtioBlk req = Some blk"
      and "VirtioBlkId req = [] \<or> ValidateUserSettable lib (VirtioBlkId req) = None"
      and "VolumeId blk = Some vol" and "PcieId blk = Some pcie"
      and "VirtioCtrls s (create_name lib gen req) = None"
      and "controller_virtio_blk_create bk
             \<lparr>Serial = create_resourceID gen req, Bdev = Value vol,
              PfID = int_of_int32 (PhysicalFunction pcie),
              NumQueues = int_of_int64 (MaxIoQps blk),
              BdevType = ''spdk'', EmulationManager = ''mlx5_0''\<rparr> = Inr result"
  shows "(result = [] \<longrightarrow>
            fst (CreateVirtioBlk lib bk gen s req) =
              Inl (InvalidArgument (''Could not create virtio-blk: '' @ create_resourceID gen req)) \<and>
            VirtioCtrls (snd (CreateVirtioBlk lib bk gen s req)) = VirtioCtrls s) \<and>
         (result \<noteq> [] \<longrightarrow>
            fst (CreateVirtioBlk lib bk gen s req) = Inr (blk\<lparr>Name := create_name lib gen req\<rparr>) \<and>
            VirtioCtrls (snd (CreateVirtioBlk lib bk gen s req)) =
              (VirtioCtrls s)(create_name lib gen req \<mapsto> blk\<lparr>Name := create_name lib gen req\<rparr>))"
  using CreateVirtioBlk_fresh [OF assms(1-5) refl assms(6)]
  by (simp add: rpc_Call_def)

text \<open>
  The request \<open>req0\<close> on the fresh server: with the empty result nothing is stored
  under \<open>name0\<close>, with the result \<open>VblkEmu0pf0\<close> the controller is.
\<close>

theorem CreateVirtioBlk_backend_result_witness:
  "fst (CreateVirtioBlk lib0 (bk0 [] True) ''g'' server0 req0) =
     Inl (InvalidArgument ''Could not create virtio-blk: b'') \<and>
   VirtioCtrls (snd (CreateVirtioBlk lib0 (bk0 [] True) ''g'' server0 req0)) name0 = None \<and>
   fst (CreateVirtioBlk lib0 (bk0 ''VblkEmu0pf0'' True) ''g'' server0 req0) = Inr (blk0\<lparr>Name := name0\<rparr>) \<and>
   VirtioCtrls (snd (CreateVirtioBlk lib0 (bk0 ''VblkEmu0pf0'' True) ''g'' server0 req0)) name0 =
     Some (blk0\<lparr>Name := name0\<rparr>)"
proof -
  have 1: "create_VirtioBlk req0 = Some blk0" by (simp add: req0_def)
  have 2: "VirtioBlkId req0 = [] \<or> ValidateUserSettable lib0 (VirtioBlkId req0) = None"
    by (simp add: req0_def lib0_def nonempty_def)
  have 3: "VolumeId blk0 = Some \<lparr>Value = ''Malloc42''\<rparr>" by (simp add: blk0_def)
  have 4: "PcieId blk0 = Some \<lparr>PortId = 0, PhysicalFunction = 42, VirtualFunction = 0\<rparr>"
    by (simp add: blk0_def)
  have 5: "VirtioCtrls server0 (create_name lib0 ''g'' req0) = None" by (simp add: server0_def)
  have 6: "controller_virtio_blk_create (bk0 created True)
             \<lparr>Serial = create_resourceID ''g'' req0, Bdev = Value \<lparr>Value = ''Malloc42''\<rparr>,
              PfID = int_of_int32 (PhysicalFunction \<lparr>PortId = 0, PhysicalFunction = 42, VirtualFunction = 0\<rparr>),
              NumQueues = int_of_int64 (MaxIoQps blk0),
              BdevType = ''spdk'', EmulationManager = ''mlx5_0''\<rparr> = Inr created" for created
    by (simp add: bk0_def)
  have r: "create_resourceID ''g'' req0 = ''b''" by (simp add: create_resourceID_def req0_def)
  show ?thesis
    using CreateVirtioBlk_backend_result [OF 1 2 3 4 5 6 [of "[]"]]
          CreateVirtioBlk_backend_result [OF 1 2 3 4 5 6 [of "''VblkEmu0pf0''"]]
    by (simp add: create_name_req0 r server0_def)
qed

subsection \<open>Delete\<close>

text \<open>
  C3. For a Delete request that passes the two validations and whose name is registered,
  in a registry that stores every controller under its own name (the invariant that the
  handlers keep): when the backend delete call returns without a transport error, Delete
  succeeds and the entry of that name is removed, whatever the boolean \<open>result\<close> of
  the backend is; the cursor store is untouched and the one delete call is the only call
  added to the trace.
\<close>

theorem DeleteVirtioBlk_best_effort:
  assumes "ValidateRequiredFields_Delete lib req = None"
      and "resourcename_Validate lib (delete_Name req) = None"
      and "registry_inv s"
      and "VirtioCtrls s (delete_Name req) = Some c"
      and "controller_virtio_blk_delete bk \<lparr>params_Name = delete_Name req, Force = True\<rparr> = Inr result"
  shows "fst (DeleteVirtioBlk lib bk s req) = Inr () \<and>
         VirtioCtrls (snd (DeleteVirtioBlk lib bk s req)) = (VirtioCtrls s)(delete_Name req := None) \<and>
         Pagination (snd (DeleteVirtioBlk lib bk s req)) = Pagination s \<and>
         rpc_calls (snd (DeleteVirtioBlk lib bk s req)) =
           rpc_calls s @ [Call_controller_virtio_blk_delete \<lparr>params_Name = delete_Name req, Force = True\<rparr>]"
proof -
  from assms(3,4) have "Name c = delete_Name req"
    by (simp add: registry_inv_def)
  with DeleteVirtioBlk_present [OF assms(1,2,4,5)] show ?thesis
    by (simp add: rpc_Call_def)
qed

text \<open>Deleting \<open>name0\<close> from \<open>server1\<close>, with the backend answering false and true.\<close>

theorem DeleteVirtioBlk_best_effort_witness:
  "fst (DeleteVirtioBlk lib0 (bk0 [] False) server1 (del0 False)) = Inr () \<and>
   VirtioCtrls (snd (DeleteVirtioBlk lib0 (bk0 [] False) server1 (del0 False))) name0 = None \<and>
   fst (DeleteVirtioBlk lib0 (bk0 [] True) server1 (del0 False)) = Inr () \<and>
   VirtioCtrls (snd (DeleteVirtioBlk lib0 (bk0 [] True) server1 (del0 False))) name0 = None"
proof -
  have v: "ValidateRequiredFields_Delete lib0 (del0 False) = None"
          "resourcename_Validate lib0 (delete_Name (del0 False)) = None"
    by (simp_all add: lib0_def del0_def nonempty_def name0_def)
  have p: "VirtioCtrls server1 (delete_Name (del0 False)) = Some (blk0\<lparr>Name := name0\<rparr>)"
    by (simp add: server1_def server0_def del0_def)
  have b: "controller_virtio_blk_delete (bk0 [] result)
             \<lparr>params_Name = delete_Name (del0 False), Force = True\<rparr> = Inr result" for result
    by (simp add: bk0_def)
  show ?thesis
    using DeleteVirtioBlk_best_effort [OF v registry_inv_server1 p b [of False]]
          DeleteVirtioBlk_best_effort [OF v registry_inv_server1 p b [of True]]
    by (simp add: del0_def)
qed

text \<open>
  For a Delete request that passes the two validations and whose name is not registered,
  the state is the one before the call, so the registry is unchanged and no backend call
  is issued; Delete succeeds when \<open>AllowMissing\<close> is set and returns the plain error of
  line 104 otherwise.
\<close>

lemma DeleteVirtioBlk_unknown:
  assumes "ValidateRequiredFields_Delete lib req = None"
      and "resourcename_Validate lib (delete_Name req) = None"
      and "VirtioCtrls s (delete_Name req) = None"
  shows "DeleteVirtioBlk lib bk s req =
           (if delete_AllowMissing req then Inr ()
            else Inl (Errorf (''error finding controller '' @ delete_Name req)), s)"
  using assms by (simp add: DeleteVirtioBlk_def)

text \<open>
  C6. Delete on an unknown name: with \<open>AllowMissing\<close> set it succeeds as a no-op, and
  without it the claim asks for a not-found error, in both cases with the registry
  unchanged and no backend call. The handler does all of this but the class of the
  error: line 104 returns a plain error made by \<^verbatim>\<open>fmt.Errorf\<close>, which carries no
  status code and so is not a NotFound error, whereas Update answers the same unknown
  name with a NotFound status error (line 139). On the fresh server, for \<open>name0\<close>:
\<close>

theorem DeleteVirtioBlk_unknown_error:
  "DeleteVirtioBlk lib0 (bk0 [] True) server0 (del0 True) = (Inr (), server0) \<and>
   DeleteVirtioBlk lib0 (bk0 [] True) server0 (del0 False) =
     (Inl (Errorf ''error finding controller //storage.opiproject.org/volumes/b''), server0) \<and>
   (\<forall>m. Errorf ''error finding controller //storage.opiproject.org/volumes/b'' \<noteq> NotFound m) \<and>
   UpdateVirtioBlk lib0 server0 (upd0 name0 False) =
     (Inl (NotFound ''unable to find key //storage.opiproject.org/volumes/b''), server0)"
proof -
  have v: "ValidateRequiredFields_Delete lib0 (del0 a) = None"
          "resourcename_Validate lib0 (delete_Name (del0 a)) = None" for a
    by (simp_all add: lib0_def del0_def nonempty_def name0_def)
  have p: "VirtioCtrls server0 (delete_Name (del0 a)) = None" for a
    by (simp add: server0_def)
  have d: "DeleteVirtioBlk lib0 (bk0 [] True) server0 (del0 True) = (Inr (), server0)"
          "DeleteVirtioBlk lib0 (bk0 [] True) server0 (del0 False) =
             (Inl (Errorf ''error finding controller //storage.opiproject.org/volumes/b''), server0)"
    using DeleteVirtioBlk_unknown [OF v(1) [of True] v(2) [of True] p [of True], where bk = "bk0 [] True"]
          DeleteVirtioBlk_unknown [OF v(1) [of False] v(2) [of False] p [of False], where bk = "bk0 [] True"]
    by (simp_all add: del0_def name0_def)
  have u: "UpdateVirtioBlk lib0 server0 (upd0 name0 False) =
             (Inl (NotFound ''unable to find key //storage.opiproject.org/volumes/b''), server0)"
    by (simp add: UpdateVirtioBlk_def upd0_def lib0_def nonempty_def server0_def name0_def)
  from d u show ?thesis by simp
qed

subsection \<open>Update\<close>

text \<open>
  C7. For an Update request whose controller name passes the name validation: when the
  name is not registered Update fails with NotFound, whether \<open>AllowMissing\<close> is set or
  not; when the name is registered and the field mask validates, Update fails with
  Unimplemented. In both cases the state is the one before the call: no registry entry is
  changed and no backend call is issued.
\<close>

theorem UpdateVirtioBlk_unimplemented:
  assumes "update_VirtioBlk req = Some blk"
      and "resourcename_Validate lib (Name blk) = None"
  shows "(VirtioCtrls s (Name blk) = None \<longrightarrow>
            UpdateVirtioBlk lib s req = (Inl (NotFound (''unable to find key '' @ Name blk)), s)) \<and>
         (VirtioCtrls s (Name blk) = Some v \<and> fieldmask_Validate lib (UpdateMask req) blk = None \<longrightarrow>
            UpdateVirtioBlk lib s req =
              (Inl (Unimplemented ''UpdateVirtioBlk method is not implemented''), s))"
  using assms by (simp add: UpdateVirtioBlk_def)

text \<open>
  A registered name without \<open>AllowMissing\<close>, and an unknown name with \<open>AllowMissing\<close>
  set.
\<close>

theorem UpdateVirtioBlk_unimplemented_witness:
  "UpdateVirtioBlk lib0 server1 (upd0 name0 False) =
     (Inl (Unimplemented ''UpdateVirtioBlk method is not implemented''), server1) \<and>
   UpdateVirtioBlk lib0 server1 (upd0 ''x'' True) = (Inl (NotFound ''unable to find key x''), server1)"
proof -
  have u: "update_VirtioBlk (upd0 n a) = Some (blk0\<lparr>Name := n\<rparr>)" for n a
    by (simp add: upd0_def)
  have v: "resourcename_Validate lib0 (Name (blk0\<lparr>Name := n\<rparr>)) = None" if "n \<noteq> []" for n
    using that by (simp add: lib0_def nonempty_def)
  have n0: "name0 \<noteq> []" by (simp add: name0_def)
  have x: "''x'' \<noteq> []" by simp
  have p: "VirtioCtrls server1 name0 = Some (blk0\<lparr>Name := name0\<rparr>)"
          "VirtioCtrls server1 ''x'' = None"
    by (simp_all add: server1_def server0_def name0_def)
  have m: "fieldmask_Validate lib0 (UpdateMask (upd0 name0 False)) (blk0\<lparr>Name := name0\<rparr>) = None"
    by (simp add: lib0_def)
  show ?thesis
    using UpdateVirtioBlk_unimplemented [OF u [of name0 False] v [OF n0], where s = server1
                                           and v = "blk0\<lparr>Name := name0\<rparr>"]
          UpdateVirtioBlk_unimplemented [OF u [of "''x''" True] v [OF x], where s = server1]
          p m
    by simp
qed


subsection \<open>Facts about the pagination helpers and ListVirtioBlks\<close>

lemma LimitPagination_window:
  assumes "0 \<le> offset" and "offset \<le> int (length result)" and "0 \<le> sz"
  shows "LimitPagination result offset sz =
           Inr (take (nat sz) (drop (nat offset) result), offset + sz < int (length result))"
proof (cases "offset + sz < int (length result)")
  case True
  with assms show ?thesis by (simp add: LimitPagination_def Let_def)
next
  case False
  with assms have "length (drop (nat offset) result) \<le> nat sz" by simp
  then have "take (nat sz) (drop (nat offset) result) = drop (nat offset) result"
    by (rule take_all)
  moreover have "take (nat (int (length result) - offset)) (drop (nat offset) result) = drop (nat offset) result"
    by (rule take_all) (use assms in simp)
  ultimately show ?thesis using False assms by (simp add: LimitPagination_def Let_def)
qed

text \<open>
  A page size between one and the maximum is taken as it is; the offset is zero without a
  token and the stored offset with a token that the cursor store knows.
\<close>

lemma ExtractPagination_first_page:
  assumes "0 < sint ps" and "sint ps \<le> m"
  shows "ExtractPagination m ps [] pag = Inr (sint ps, 0)"
  using assms by (simp add: ExtractPagination_def)

lemma ExtractPagination_next_page:
  assumes "0 < sint ps" and "sint ps \<le> m" and "tok \<noteq> []" and "pag tok = Some offset"
  shows "ExtractPagination m ps tok pag = Inr (sint ps, offset)"
  using assms by (simp add: ExtractPagination_def)

lemma ExtractPagination_other_token:
  assumes "uuid \<noteq> tok"
  shows "ExtractPagination m ps tok (pag(uuid \<mapsto> x)) = ExtractPagination m ps tok pag"
  using assms by (simp add: ExtractPagination_def)

lemma ExtractPagination_redeem:
  assumes "ExtractPagination m ps tok pag = Inr (sz, offset)" and "uuid \<noteq> []"
  shows "ExtractPagination m ps uuid (pag(uuid \<mapsto> x)) = Inr (sz, x)"
  using assms by (auto simp: ExtractPagination_def Let_def split: if_splits option.splits)

lemma ListVirtioBlks_page:
  assumes "ExtractPagination (maxPageSize lib) (PageSize req) (PageToken req) (Pagination s) = Inr (sz, offset)"
      and "controller_list bk = Inr listing"
      and "0 \<le> offset" and "offset \<le> int (length listing)" and "0 \<le> sz"
  shows "ListVirtioBlks lib bk uuid s req =
           (Inr \<lparr>VirtioBlks = sortVirtioBlks (map (virtioBlk_of lib)
                    (filter is_virtio_blk (take (nat sz) (drop (nat offset) listing)))),
                 NextPageToken = []\<rparr>,
            if offset + sz < int (length listing)
            then (rpc_Call Call_controller_list s)\<lparr>Pagination := (Pagination s)(uuid \<mapsto> offset + sz)\<rparr>
            else rpc_Call Call_controller_list s)"
  using assms(1,2) LimitPagination_window [OF assms(3,4,5)]
  by (simp add: ListVirtioBlks_def rpc_Call_def Let_def)

lemma ListVirtioBlks_success:
  assumes "ListVirtioBlks lib bk uuid s req = (Inr resp, s')"
  shows "\<exists>sz offset listing window more.
           ExtractPagination (maxPageSize lib) (PageSize req) (PageToken req) (Pagination s) = Inr (sz, offset) \<and>
           controller_list bk = Inr listing \<and>
           LimitPagination listing offset sz = Inr (window, more) \<and>
           resp = \<lparr>VirtioBlks = sortVirtioBlks (map (virtioBlk_of lib) (filter is_virtio_blk window)),
                   NextPageToken = []\<rparr> \<and>
           Pagination s' = (if more then (Pagination s)(uuid \<mapsto> offset + sz) else Pagination s)"
proof (cases "ExtractPagination (maxPageSize lib) (PageSize req) (PageToken req) (Pagination s)")
  case (Inl perr)
  with assms show ?thesis by (simp add: ListVirtioBlks_def)
next
  case (Inr p)
  then obtain sz offset where e:
    "ExtractPagination (maxPageSize lib) (PageSize req) (PageToken req) (Pagination s) = Inr (sz, offset)"
    by (cases p) simp
  show ?thesis
  proof (cases "controller_list bk")
    case (Inl err)
    with assms e show ?thesis by (simp add: ListVirtioBlks_def Let_def)
  next
    case l: (Inr listing)
    show ?thesis
    proof (cases "LimitPagination listing offset sz")
      case (Inl err)
      with assms e l show ?thesis by (simp add: ListVirtioBlks_def Let_def)
    next
      case (Inr q)
      then obtain window more where w: "LimitPagination listing offset sz = Inr (window, more)"
        by (cases q) simp
      from assms e l w have
        "resp = \<lparr>VirtioBlks = sortVirtioBlks (map (virtioBlk_of lib) (filter is_virtio_blk window)),
                  NextPageToken = []\<rparr>"
        "Pagination s' = (if more then (Pagination s)(uuid \<mapsto> offset + sz) else Pagination s)"
        by (auto simp: ListVirtioBlks_def rpc_Call_def Let_def split: if_splits)
      with e l w show ?thesis by blast
    qed
  qed
qed

lemma sorted_sortVirtioBlks: "sorted (map Name (sortVirtioBlks xs))"
  by (simp add: sortVirtioBlks_def)

lemma set_sortVirtioBlks: "set (sortVirtioBlks xs) = set xs"
  by (simp add: sortVirtioBlks_def)

lemma length_sortVirtioBlks: "length (sortVirtioBlks xs) = length xs"
  by (simp add: sortVirtioBlks_def)

lemma ListVirtioBlks_run0:
  "ListVirtioBlks lib0 (bk0 [] True) ''t1'' server0 (list0 3 []) =
     (Inr \<lparr>VirtioBlks =
            [virtioBlk_of lib0 \<lparr>result_Name = ''b'', Type = ''virtio_blk'', PciIndex = 1\<rparr>,
             virtioBlk_of lib0 \<lparr>result_Name = ''c'', Type = ''virtio_blk'', PciIndex = 2\<rparr>],
           NextPageToken = []\<rparr>,
      rpc_Call Call_controller_list server0)"
  by (simp add: ListVirtioBlks_def ExtractPagination_def LimitPagination_def lib0_def bk0_def
      server0_def list0_def listing0_def rpc_Call_def is_virtio_blk_def sortVirtioBlks_def
      virtioBlk_of_def Let_def)

subsection \<open>Facts about GetVirtioBlk and VirtioBlkStats\<close>

lemma GetVirtioBlk_unknown:
  assumes "ValidateRequiredFields_Get lib req = None"
      and "resourcename_Validate lib (get_Name req) = None"
      and "VirtioCtrls s (get_Name req) = None"
  shows "GetVirtioBlk lib bk s req =
           (Inl (InvalidArgument (''Could not find Controller: '' @ get_Name req)), s)"
  using assms by (simp add: GetVirtioBlk_def)

lemma GetVirtioBlk_known:
  assumes "ValidateRequiredFields_Get lib req = None"
      and "resourcename_Validate lib (get_Name req) = None"
      and "VirtioCtrls s (get_Name req) = Some c"
      and "controller_list bk = Inr listing"
  shows "GetVirtioBlk lib bk s req =
           (case find (name_matches (get_Name req)) listing of
              Some r \<Rightarrow> Inr (virtioBlk_of lib r)
            | None \<Rightarrow> Inl (InvalidArgument (''Could not find Controller: '' @ get_Name req)),
            rpc_Call Call_controller_list s)"
proof -
  have "(\<lambda>r. result_Name r = path_Base (get_Name req) \<and> Type r = ''virtio_blk'') =
        name_matches (get_Name req)"
    by (simp add: name_matches_def fun_eq_iff)
  with assms show ?thesis
    by (simp add: GetVirtioBlk_def Let_def split: option.splits)
qed

lemma GetVirtioBlk_success:
  assumes "GetVirtioBlk lib bk s req = (Inr b, s')"
  shows "\<exists>r. b = virtioBlk_of lib r"
  using assms
  by (auto simp: GetVirtioBlk_def Let_def split: option.splits sum.splits)

lemma GetVirtioBlk_run0:
  "GetVirtioBlk lib0 (bk0 [] True) server1 (get0 name0) =
     (Inr (virtioBlk_of lib0 \<lparr>result_Name = ''b'', Type = ''virtio_blk'', PciIndex = 1\<rparr>),
      rpc_Call Call_controller_list server1)"
  by (simp add: GetVirtioBlk_def lib0_def bk0_def server1_def server0_def get0_def listing0_def
      rpc_Call_def nonempty_def path_Base_def name0_def Let_def)

lemma find_append_case:
  "find P (xs @ ys) = (case find P xs of Some x \<Rightarrow> Some x | None \<Rightarrow> find P ys)"
  by (induction xs) simp_all

lemma find_bdev_concat:
  "find_bdev ident cs = find (\<lambda>r. BdevName r = ident) (concat (map Bdevs cs))"
  by (induction cs) (simp_all add: find_append_case split: option.splits)

lemma VirtioBlkStats_run:
  assumes "ControllerId req = Some cid"
      and "resourcename_Validate lib (Value cid) = None"
      and "controller_virtio_blk_get_iostat bk = Inr result"
  shows "VirtioBlkStats lib bk s req =
           (case find (\<lambda>r. BdevName r = Value cid) (all_bdevs result) of
              Some r \<Rightarrow>
                Inr \<lparr>stats_Id = Some cid,
                      Stats = Some \<lparr>ReadOpsCount = int32_of_int (ReadIos r),
                                     WriteOpsCount = int32_of_int (WriteIos r)\<rparr>\<rparr>
            | None \<Rightarrow> Inl (InvalidArgument (''Could not find Controller: '' @ Value cid)),
            rpc_Call Call_controller_virtio_blk_get_iostat s)"
  using assms
  by (simp add: VirtioBlkStats_def Let_def find_bdev_concat all_bdevs_def split: option.splits)

text \<open>
  The conversion to \<^verbatim>\<open>int32\<close> keeps the value of a Go \<^verbatim>\<open>int\<close> that lies in the range
  of \<^verbatim>\<open>int32\<close>; outside this range it keeps the low 32 bits.
\<close>

lemma sint_int32_of_int:
  assumes "- (2 ^ 31) \<le> sint x" and "sint x < 2 ^ 31"
  shows "sint (int32_of_int x) = sint x"
proof -
  have "(ucast x :: int32) = scast x"
    by (simp add: down_cast_same is_down)
  then have "sint (int32_of_int x) = signed_take_bit 31 (sint x)"
    by (simp add: int32_of_int_def signed_scast_eq)
  also have "\<dots> = sint x"
    using assms by (rule signed_take_bit_int_eq_self)
  finally show ?thesis .
qed

subsection \<open>List: the page and the cursor\<close>

text \<open>
  C2, as amended. List cuts the offset/size window from the listing as the backend sent it
  and then keeps the virtio-blk entries of the window: the page is the sorted list of the
  controllers built from those entries, so it holds at most \<open>size\<close> entries, and exactly
  \<open>min size (N - offset)\<close> when all \<open>N\<close> entries of the listing are virtio-blk
  controllers. When entries remain beyond the window, the cursor store gains the fresh
  token bound to \<open>offset + size\<close>, and a request with that token and the same page size
  resumes at \<open>offset + size\<close>; on the terminal page the cursor store is unchanged.
  (Whether the response carries the token is not part of this statement.)
\<close>

theorem ListVirtioBlks_window_then_filter:
  assumes "ExtractPagination (maxPageSize lib) (PageSize req) (PageToken req) (Pagination s) = Inr (sz, offset)"
      and "controller_list bk = Inr listing"
      and "0 \<le> offset" and "offset \<le> int (length listing)" and "0 \<le> sz"
  shows "\<exists>resp s'. ListVirtioBlks lib bk uuid s req = (Inr resp, s') \<and>
           VirtioBlks resp = sortVirtioBlks (map (virtioBlk_of lib)
              (filter is_virtio_blk (take (nat sz) (drop (nat offset) listing)))) \<and>
           length (VirtioBlks resp) \<le> nat sz \<and>
           ((\<forall>r\<in>set listing. is_virtio_blk r) \<longrightarrow>
              length (VirtioBlks resp) = min (nat sz) (length listing - nat offset)) \<and>
           (offset + sz < int (length listing) \<longrightarrow>
              Pagination s' = (Pagination s)(uuid \<mapsto> offset + sz) \<and>
              (uuid \<noteq> [] \<longrightarrow>
                 ExtractPagination (maxPageSize lib) (PageSize req) uuid (Pagination s') =
                   Inr (sz, offset + sz))) \<and>
           (int (length listing) \<le> offset + sz \<longrightarrow> Pagination s' = Pagination s)"
proof -
  let ?window = "take (nat sz) (drop (nat offset) listing)"
  let ?page = "sortVirtioBlks (map (virtioBlk_of lib) (filter is_virtio_blk ?window))"
  let ?s1 = "rpc_Call Call_controller_list s"
  let ?s' = "if offset + sz < int (length listing)
             then ?s1\<lparr>Pagination := (Pagination s)(uuid \<mapsto> offset + sz)\<rparr> else ?s1"
  have run: "ListVirtioBlks lib bk uuid s req = (Inr \<lparr>VirtioBlks = ?page, NextPageToken = []\<rparr>, ?s')"
    using assms by (rule ListVirtioBlks_page)
  have len: "length ?page \<le> nat sz"
  proof -
    have "length (filter is_virtio_blk ?window) \<le> length ?window" by (rule length_filter_le)
    also have "\<dots> \<le> nat sz" by simp
    finally show ?thesis by (simp add: length_sortVirtioBlks)
  qed
  have full: "length ?page = min (nat sz) (length listing - nat offset)"
    if "\<forall>r\<in>set listing. is_virtio_blk r"
  proof -
    have "\<forall>r\<in>set ?window. is_virtio_blk r"
      using that by (meson in_set_dropD in_set_takeD)
    then have "filter is_virtio_blk ?window = ?window" by (rule filter_True)
    then show ?thesis by (simp add: length_sortVirtioBlks)
  qed
  have more: "Pagination ?s' = (Pagination s)(uuid \<mapsto> offset + sz)"
    if "offset + sz < int (length listing)"
    using that by simp
  have redeem: "ExtractPagination (maxPageSize lib) (PageSize req) uuid (Pagination ?s') =
                  Inr (sz, offset + sz)"
    if "offset + sz < int (length listing)" and "uuid \<noteq> []"
    using ExtractPagination_redeem [OF assms(1) that(2)] more [OF that(1)] by simp
  have last: "Pagination ?s' = Pagination s" if "int (length listing) \<le> offset + sz"
    using that by (simp add: rpc_Call_def)
  show ?thesis
    using run len full more redeem last by (intro exI [of _ "\<lparr>VirtioBlks = ?page, NextPageToken = []\<rparr>"] exI [of _ ?s']) simp
qed

text \<open>
  Three virtio-blk controllers and a page size of two: the first page has two entries and
  stores the cursor \<open>t1\<close> at offset 2; the request with \<open>t1\<close> returns the one remaining
  entry and stores no cursor.
\<close>

theorem ListVirtioBlks_window_then_filter_witness:
  "\<exists>resp s'. ListVirtioBlks lib0 (bk_list listing1) ''t1'' server0 (list0 2 []) = (Inr resp, s') \<and>
      length (VirtioBlks resp) = 2 \<and> Pagination s' = [''t1'' \<mapsto> 2] \<and>
      (\<exists>resp2 s''. ListVirtioBlks lib0 (bk_list listing1) ''t2'' s' (list0 2 ''t1'') = (Inr resp2, s'') \<and>
         length (VirtioBlks resp2) = 1 \<and> Pagination s'' = [''t1'' \<mapsto> 2])"
proof -
  have l: "controller_list (bk_list listing1) = Inr listing1" by (simp add: bk_list_def)
  have n: "int (length listing1) = 3" "length listing1 = 3" by (simp_all add: listing1_def)
  have v: "\<forall>r\<in>set listing1. is_virtio_blk r" by (simp add: listing1_def is_virtio_blk_def)
  have e: "ExtractPagination (maxPageSize lib0) (PageSize (list0 2 [])) (PageToken (list0 2 []))
             (Pagination server0) = Inr (2, 0)"
    by (simp add: ExtractPagination_def lib0_def list0_def)
  have q: "PageSize (list0 2 ''t1'') = PageSize (list0 2 [])" "PageToken (list0 2 ''t1'') = ''t1''"
    by (simp_all add: list0_def)
  from ListVirtioBlks_window_then_filter [OF e l, of "''t1''"] n
  obtain resp s' where
    a: "ListVirtioBlks lib0 (bk_list listing1) ''t1'' server0 (list0 2 []) = (Inr resp, s')"
    and b: "(\<forall>r\<in>set listing1. is_virtio_blk r) \<longrightarrow>
              length (VirtioBlks resp) = min (nat 2) (length listing1 - nat 0)"
    and c: "0 + 2 < int (length listing1) \<longrightarrow>
              Pagination s' = (Pagination server0)(''t1'' \<mapsto> 0 + 2) \<and>
              (''t1'' \<noteq> [] \<longrightarrow>
                 ExtractPagination (maxPageSize lib0) (PageSize (list0 2 [])) ''t1'' (Pagination s') =
                   Inr (2, 0 + 2))"
    by fastforce
  from b v n have b': "length (VirtioBlks resp) = 2" by simp
  have "0 + 2 < int (length listing1)" using n by simp
  with c have cc: "Pagination s' = (Pagination server0)(''t1'' \<mapsto> 0 + 2)"
    and ee: "''t1'' \<noteq> [] \<longrightarrow>
               ExtractPagination (maxPageSize lib0) (PageSize (list0 2 [])) ''t1'' (Pagination s') =
                 Inr (2, 0 + 2)"
    by blast+
  from cc have c': "Pagination s' = [''t1'' \<mapsto> 2]" by (simp add: server0_def)
  from ee have e2: "ExtractPagination (maxPageSize lib0) (PageSize (list0 2 ''t1''))
                      (PageToken (list0 2 ''t1'')) (Pagination s') = Inr (2, 2)"
    by (simp add: q)
  from ListVirtioBlks_window_then_filter [OF e2 l, of "''t2''"] n
  obtain resp2 s'' where
    a2: "ListVirtioBlks lib0 (bk_list listing1) ''t2'' s' (list0 2 ''t1'') = (Inr resp2, s'')"
    and b2: "(\<forall>r\<in>set listing1. is_virtio_blk r) \<longrightarrow>
              length (VirtioBlks resp2) = min (nat 2) (length listing1 - nat 2)"
    and c2: "int (length listing1) \<le> 2 + 2 \<longrightarrow> Pagination s'' = Pagination s'"
    by fastforce
  from b2 v n have "length (VirtioBlks resp2) = 1" by simp
  moreover from c2 n c' have "Pagination s'' = [''t1'' \<mapsto> 2]" by simp
  ultimately show ?thesis using a b' c' a2 by blast
qed

text \<open>
  The claim as it was stated, filter first and window second, fails on \<open>listing0\<close>, whose
  first device is not a virtio-blk controller: there are two virtio-blk entries and the
  page size is one, but the first page is empty, because its window holds the first
  device only.
\<close>

theorem ListVirtioBlks_filter_first_counterexample:
  "length (filter is_virtio_blk listing0) = 2 \<and>
   fst (ListVirtioBlks lib0 (bk0 [] True) ''t1'' server0 (list0 1 [])) =
     Inr \<lparr>VirtioBlks = [], NextPageToken = []\<rparr>"
  by (simp add: ListVirtioBlks_def ExtractPagination_def LimitPagination_def lib0_def bk0_def
      server0_def list0_def listing0_def rpc_Call_def is_virtio_blk_def sortVirtioBlks_def Let_def)


subsection \<open>List: the order of the page\<close>

text \<open>
  C8. Every successful List response has its page sorted by resource name, ascending in
  the byte-wise order of Go's strings, whatever listing the backend delivered. A repeated
  call with the same request against the same backend, from the state that the first call
  left, returns the same response (the fresh token of the first call differs from the
  token of the request).
\<close>

theorem ListVirtioBlks_sorted:
  assumes "ListVirtioBlks lib bk uuid s req = (Inr resp, s')"
  shows "sorted (map Name (VirtioBlks resp)) \<and>
         (uuid \<noteq> PageToken req \<longrightarrow> fst (ListVirtioBlks lib bk uuid' s' req) = Inr resp)"
proof -
  from ListVirtioBlks_success [OF assms] obtain sz offset listing window more where
    e: "ExtractPagination (maxPageSize lib) (PageSize req) (PageToken req) (Pagination s) = Inr (sz, offset)"
    and l: "controller_list bk = Inr listing"
    and w: "LimitPagination listing offset sz = Inr (window, more)"
    and r: "resp = \<lparr>VirtioBlks = sortVirtioBlks (map (virtioBlk_of lib) (filter is_virtio_blk window)),
                     NextPageToken = []\<rparr>"
    and p: "Pagination s' = (if more then (Pagination s)(uuid \<mapsto> offset + sz) else Pagination s)"
    by blast
  have "sorted (map Name (VirtioBlks resp))"
    by (simp add: r sorted_sortVirtioBlks)
  moreover have "fst (ListVirtioBlks lib bk uuid' s' req) = Inr resp" if "uuid \<noteq> PageToken req"
  proof -
    have "ExtractPagination (maxPageSize lib) (PageSize req) (PageToken req) (Pagination s') = Inr (sz, offset)"
      using e p that by (simp add: ExtractPagination_other_token)
    then show ?thesis
      using l w r by (simp add: ListVirtioBlks_def Let_def)
  qed
  ultimately show ?thesis by blast
qed

text \<open>
  The backend sends \<open>c\<close> before \<open>b\<close>; the page has \<open>b\<close> before \<open>c\<close>, and the second
  call returns what the first returned.
\<close>

theorem ListVirtioBlks_sorted_witness:
  "sorted [Name (virtioBlk_of lib0 \<lparr>result_Name = ''b'', Type = ''virtio_blk'', PciIndex = 1\<rparr>),
           Name (virtioBlk_of lib0 \<lparr>result_Name = ''c'', Type = ''virtio_blk'', PciIndex = 2\<rparr>)] \<and>
   fst (ListVirtioBlks lib0 (bk0 [] True) ''t2'' (rpc_Call Call_controller_list server0) (list0 3 [])) =
   fst (ListVirtioBlks lib0 (bk0 [] True) ''t1'' server0 (list0 3 []))"
proof -
  let ?resp = "\<lparr>VirtioBlks =
            [virtioBlk_of lib0 \<lparr>result_Name = ''b'', Type = ''virtio_blk'', PciIndex = 1\<rparr>,
             virtioBlk_of lib0 \<lparr>result_Name = ''c'', Type = ''virtio_blk'', PciIndex = 2\<rparr>],
           NextPageToken = []\<rparr>"
  have t: "''t1'' \<noteq> PageToken (list0 3 [])" by (simp add: list0_def)
  from ListVirtioBlks_sorted [OF ListVirtioBlks_run0, of "''t2''"] t
  have "sorted (map Name (VirtioBlks ?resp))"
    and "fst (ListVirtioBlks lib0 (bk0 [] True) ''t2'' (rpc_Call Call_controller_list server0) (list0 3 []))
           = Inr ?resp"
    by blast+
  then show ?thesis by (simp add: ListVirtioBlks_run0)
qed

subsection \<open>Get\<close>

text \<open>
  C5. For a Get request that passes the two validations: when the name is not registered,
  Get fails with InvalidArgument "Could not find Controller: " followed by the name, and
  the state is the one before the call, so the backend is not asked, whatever it lists.
  When the name is registered and the backend returns its listing: if some entry has the
  last path segment of the request name as its name and the virtio-blk type, Get returns
  the first such entry of the listing as a controller message: its name is the canonical
  name of that path segment, its physical function is the PCI index of the entry
  converted to \<^verbatim>\<open>int32\<close> (the same number when the index lies in the range of
  \<^verbatim>\<open>int32\<close>), its volume is \<open>TBD\<close>, and its other fields are zero. If no entry has,
  Get fails with InvalidArgument "Could not find Controller: " followed by the name. In
  both of these cases the one listing call is added to the trace.
\<close>

theorem GetVirtioBlk_existence_gate:
  assumes "ValidateRequiredFields_Get lib req = None"
      and "resourcename_Validate lib (get_Name req) = None"
  shows "(VirtioCtrls s (get_Name req) = None \<longrightarrow>
            GetVirtioBlk lib bk s req =
              (Inl (InvalidArgument (''Could not find Controller: '' @ get_Name req)), s)) \<and>
         (VirtioCtrls s (get_Name req) = Some c \<and> controller_list bk = Inr listing \<longrightarrow>
            ((\<exists>r\<in>set listing. result_Name r = path_Base (get_Name req) \<and> Type r = ''virtio_blk'') \<longrightarrow>
               (\<exists>i<length listing.
                  result_Name (listing ! i) = path_Base (get_Name req) \<and>
                  Type (listing ! i) = ''virtio_blk'' \<and>
                  (\<forall>j<i. \<not> (result_Name (listing ! j) = path_Base (get_Name req) \<and>
                               Type (listing ! j) = ''virtio_blk'')) \<and>
                  GetVirtioBlk lib bk s req =
                    (Inr \<lparr>Name = ResourceIDToVolumeName lib (path_Base (get_Name req)),
                           PcieId = Some \<lparr>PortId = 0,
                                           PhysicalFunction = ucast (PciIndex (listing ! i)),
                                           VirtualFunction = 0\<rparr>,
                           VolumeId = Some \<lparr>Value = ''TBD''\<rparr>,
                           MaxIoQps = 0\<rparr>,
                     rpc_Call Call_controller_list s) \<and>
                  (- (2 ^ 31) \<le> sint (PciIndex (listing ! i)) \<and>
                   sint (PciIndex (listing ! i)) < 2 ^ 31 \<longrightarrow>
                     sint (ucast (PciIndex (listing ! i)) :: int32) = sint (PciIndex (listing ! i))))) \<and>
            ((\<forall>r\<in>set listing. \<not> (result_Name r = path_Base (get_Name req) \<and> Type r = ''virtio_blk'')) \<longrightarrow>
               GetVirtioBlk lib bk s req =
                 (Inl (InvalidArgument (''Could not find Controller: '' @ get_Name req)),
                  rpc_Call Call_controller_list s)))"
proof (intro conjI impI)
  assume "VirtioCtrls s (get_Name req) = None"
  with assms show "GetVirtioBlk lib bk s req =
      (Inl (InvalidArgument (''Could not find Controller: '' @ get_Name req)), s)"
    by (rule GetVirtioBlk_unknown)
next
  let ?n = "get_Name req"
  assume k: "VirtioCtrls s ?n = Some c \<and> controller_list bk = Inr listing"
     and "\<exists>r\<in>set listing. result_Name r = path_Base ?n \<and> Type r = ''virtio_blk''"
  then obtain r where f: "find (name_matches ?n) listing = Some r"
    by (cases "find (name_matches ?n) listing") (auto simp: find_None_iff name_matches_def)
  then obtain i where i: "i < length listing" "name_matches ?n (listing ! i)" "r = listing ! i"
    "\<forall>j<i. \<not> name_matches ?n (listing ! j)"
    unfolding find_Some_iff by blast
  have run: "GetVirtioBlk lib bk s req = (Inr (virtioBlk_of lib r), rpc_Call Call_controller_list s)"
    using GetVirtioBlk_known [OF assms, of s c bk listing] k f by simp
  have "GetVirtioBlk lib bk s req =
          (Inr \<lparr>Name = ResourceIDToVolumeName lib (path_Base ?n),
                 PcieId = Some \<lparr>PortId = 0, PhysicalFunction = ucast (PciIndex (listing ! i)),
                                 VirtualFunction = 0\<rparr>,
                 VolumeId = Some \<lparr>Value = ''TBD''\<rparr>,
                 MaxIoQps = 0\<rparr>,
           rpc_Call Call_controller_list s)"
    using run i(2,3) by (simp add: virtioBlk_of_def int32_of_int_def name_matches_def)
  moreover have "sint (ucast (PciIndex (listing ! i)) :: int32) = sint (PciIndex (listing ! i))"
    if "- (2 ^ 31) \<le> sint (PciIndex (listing ! i)) \<and> sint (PciIndex (listing ! i)) < 2 ^ 31"
    using sint_int32_of_int [of "PciIndex (listing ! i)"] that by (simp add: int32_of_int_def)
  ultimately show "\<exists>i<length listing.
      result_Name (listing ! i) = path_Base ?n \<and>
      Type (listing ! i) = ''virtio_blk'' \<and>
      (\<forall>j<i. \<not> (result_Name (listing ! j) = path_Base ?n \<and> Type (listing ! j) = ''virtio_blk'')) \<and>
      GetVirtioBlk lib bk s req =
        (Inr \<lparr>Name = ResourceIDToVolumeName lib (path_Base ?n),
               PcieId = Some \<lparr>PortId = 0, PhysicalFunction = ucast (PciIndex (listing ! i)),
                               VirtualFunction = 0\<rparr>,
               VolumeId = Some \<lparr>Value = ''TBD''\<rparr>,
               MaxIoQps = 0\<rparr>,
         rpc_Call Call_controller_list s) \<and>
      (- (2 ^ 31) \<le> sint (PciIndex (listing ! i)) \<and> sint (PciIndex (listing ! i)) < 2 ^ 31 \<longrightarrow>
         sint (ucast (PciIndex (listing ! i)) :: int32) = sint (PciIndex (listing ! i)))"
    using i(1,2,4) by (auto simp: name_matches_def)
next
  assume k: "VirtioCtrls s (get_Name req) = Some c \<and> controller_list bk = Inr listing"
     and "\<forall>r\<in>set listing. \<not> (result_Name r = path_Base (get_Name req) \<and> Type r = ''virtio_blk'')"
  then have "find (name_matches (get_Name req)) listing = None"
    by (simp add: find_None_iff name_matches_def)
  then show "GetVirtioBlk lib bk s req =
      (Inl (InvalidArgument (''Could not find Controller: '' @ get_Name req)),
       rpc_Call Call_controller_list s)"
    using GetVirtioBlk_known [OF assms, of s c bk listing] k by simp
qed

text \<open>
  The backend lists the device \<open>a\<close> of another type, then the virtio-blk devices \<open>c\<close>
  and \<open>b\<close>, the last with PCI index 1. On the fresh server Get of \<open>name0\<close> fails
  without a backend call; with \<open>name0\<close> registered (with the volume \<open>Malloc42\<close> and the
  physical function 42) it returns the controller named \<open>name0\<close> with the physical
  function 1 and the volume \<open>TBD\<close>; with \<open>name_a\<close> registered it fails after the backend
  call, since \<open>a\<close> is not a virtio-blk controller.
\<close>

theorem GetVirtioBlk_existence_gate_witness:
  "GetVirtioBlk lib0 (bk0 [] True) server0 (get0 name0) =
     (Inl (InvalidArgument ''Could not find Controller: //storage.opiproject.org/volumes/b''), server0) \<and>
   GetVirtioBlk lib0 (bk0 [] True) server1 (get0 name0) =
     (Inr \<lparr>Name = ''//storage.opiproject.org/volumes/b'',
            PcieId = Some \<lparr>PortId = 0, PhysicalFunction = 1, VirtualFunction = 0\<rparr>,
            VolumeId = Some \<lparr>Value = ''TBD''\<rparr>,
            MaxIoQps = 0\<rparr>,
      rpc_Call Call_controller_list server1) \<and>
   GetVirtioBlk lib0 (bk0 [] True) server_a (get0 name_a) =
     (Inl (InvalidArgument ''Could not find Controller: //storage.opiproject.org/volumes/a''),
      rpc_Call Call_controller_list server_a)"
proof -
  have val: "ValidateRequiredFields_Get lib0 (get0 name0) = None"
            "resourcename_Validate lib0 (get_Name (get0 name0)) = None"
    by (simp_all add: lib0_def get0_def nonempty_def name0_def)
  have val_a: "ValidateRequiredFields_Get lib0 (get0 name_a) = None"
              "resourcename_Validate lib0 (get_Name (get0 name_a)) = None"
    by (simp_all add: lib0_def get0_def nonempty_def name_a_def)
  have base: "path_Base (get_Name (get0 name0)) = ''b''" "path_Base (get_Name (get0 name_a)) = ''a''"
    by (simp_all add: path_Base_def name0_def name_a_def get0_def)
  have l: "controller_list (bk0 [] True) = Inr listing0" by (simp add: bk0_def)
  have u: "VirtioCtrls server0 (get_Name (get0 name0)) = None" by (simp add: server0_def)
  have k: "VirtioCtrls server1 (get_Name (get0 name0)) = Some (blk0\<lparr>Name := name0\<rparr>)"
    by (simp add: server1_def server0_def get0_def)
  have ka: "VirtioCtrls server_a (get_Name (get0 name_a)) = Some (blk0\<lparr>Name := name_a\<rparr>)"
    by (simp add: server_a_def server0_def get0_def)
  have len: "length listing0 = 3" by (simp add: listing0_def)
  have nth: "listing0 ! 0 = \<lparr>result_Name = ''a'', Type = ''nvme'', PciIndex = 0\<rparr>"
            "listing0 ! Suc 0 = \<lparr>result_Name = ''c'', Type = ''virtio_blk'', PciIndex = 2\<rparr>"
            "listing0 ! 2 = \<lparr>result_Name = ''b'', Type = ''virtio_blk'', PciIndex = 1\<rparr>"
    by (simp_all add: listing0_def)
  have ex: "\<exists>r\<in>set listing0. result_Name r = path_Base (get_Name (get0 name0)) \<and> Type r = ''virtio_blk''"
    by (simp add: listing0_def base)
  have ma: "\<forall>r\<in>set listing0. \<not> (result_Name r = path_Base (get_Name (get0 name_a)) \<and> Type r = ''virtio_blk'')"
    by (simp add: listing0_def base)
  have 1: "GetVirtioBlk lib0 (bk0 [] True) server0 (get0 name0) =
     (Inl (InvalidArgument (''Could not find Controller: '' @ get_Name (get0 name0))), server0)"
    using GetVirtioBlk_existence_gate [OF val, of server0] u by blast
  from GetVirtioBlk_existence_gate [OF val, of server1 "bk0 [] True" "blk0\<lparr>Name := name0\<rparr>" listing0]
    k l ex
  obtain i where i: "i < length listing0"
      "result_Name (listing0 ! i) = path_Base (get_Name (get0 name0))"
      "GetVirtioBlk lib0 (bk0 [] True) server1 (get0 name0) =
         (Inr \<lparr>Name = ResourceIDToVolumeName lib0 (path_Base (get_Name (get0 name0))),
                PcieId = Some \<lparr>PortId = 0, PhysicalFunction = ucast (PciIndex (listing0 ! i)),
                                VirtualFunction = 0\<rparr>,
                VolumeId = Some \<lparr>Value = ''TBD''\<rparr>,
                MaxIoQps = 0\<rparr>,
          rpc_Call Call_controller_list server1)"
    by blast
  from i(1) len have "i = 0 \<or> i = Suc 0 \<or> i = 2" by arith
  with i(2) have "i = 2" by (auto simp: nth base)
  with i(3) have 2: "GetVirtioBlk lib0 (bk0 [] True) server1 (get0 name0) =
     (Inr \<lparr>Name = ''//storage.opiproject.org/volumes/b'',
            PcieId = Some \<lparr>PortId = 0, PhysicalFunction = 1, VirtualFunction = 0\<rparr>,
            VolumeId = Some \<lparr>Value = ''TBD''\<rparr>,
            MaxIoQps = 0\<rparr>,
      rpc_Call Call_controller_list server1)"
    by (simp add: nth base lib0_def)
  have 3: "GetVirtioBlk lib0 (bk0 [] True) server_a (get0 name_a) =
     (Inl (InvalidArgument (''Could not find Controller: '' @ get_Name (get0 name_a))),
      rpc_Call Call_controller_list server_a)"
    using GetVirtioBlk_existence_gate [OF val_a, of server_a "bk0 [] True" "blk0\<lparr>Name := name_a\<rparr>" listing0]
      ka l ma by blast
  from 1 2 3 show ?thesis by (simp add: get0_def name0_def name_a_def)
qed

subsection \<open>Stats\<close>

text \<open>
  C9, as amended. For a Stats request whose controller reference is present and passes the
  name validation, when the backend returns its statistics: if some device entry of the
  nested structure has the requested identifier as its name, Stats answers from the first
  such entry, in the order of the controllers and of their devices, with its read and
  write operation counts converted to \<^verbatim>\<open>int32\<close>; a count that lies in the range of
  \<^verbatim>\<open>int32\<close> is returned as it is. If no entry has the name, Stats fails with
  InvalidArgument "Could not find Controller: " followed by the identifier.
\<close>

theorem VirtioBlkStats_lookup:
  assumes "ControllerId req = Some cid"
      and "resourcename_Validate lib (Value cid) = None"
      and "controller_virtio_blk_get_iostat bk = Inr result"
  shows "((\<exists>r\<in>set (all_bdevs result). BdevName r = Value cid) \<longrightarrow>
            (\<exists>i<length (all_bdevs result).
               BdevName (all_bdevs result ! i) = Value cid \<and>
               (\<forall>j<i. BdevName (all_bdevs result ! j) \<noteq> Value cid) \<and>
               VirtioBlkStats lib bk s req =
                 (Inr \<lparr>stats_Id = Some cid,
                        Stats = Some \<lparr>ReadOpsCount = ucast (ReadIos (all_bdevs result ! i)),
                                       WriteOpsCount = ucast (WriteIos (all_bdevs result ! i))\<rparr>\<rparr>,
                  rpc_Call Call_controller_virtio_blk_get_iostat s) \<and>
               (- (2 ^ 31) \<le> sint (ReadIos (all_bdevs result ! i)) \<and>
                sint (ReadIos (all_bdevs result ! i)) < 2 ^ 31 \<longrightarrow>
                  sint (ucast (ReadIos (all_bdevs result ! i)) :: int32) =
                    sint (ReadIos (all_bdevs result ! i))) \<and>
               (- (2 ^ 31) \<le> sint (WriteIos (all_bdevs result ! i)) \<and>
                sint (WriteIos (all_bdevs result ! i)) < 2 ^ 31 \<longrightarrow>
                  sint (ucast (WriteIos (all_bdevs result ! i)) :: int32) =
                    sint (WriteIos (all_bdevs result ! i))))) \<and>
         ((\<forall>r\<in>set (all_bdevs result). BdevName r \<noteq> Value cid) \<longrightarrow>
            VirtioBlkStats lib bk s req =
              (Inl (InvalidArgument (''Could not find Controller: '' @ Value cid)),
               rpc_Call Call_controller_virtio_blk_get_iostat s))"
proof (intro conjI impI)
  let ?ds = "all_bdevs result"
  assume "\<exists>r\<in>set ?ds. BdevName r = Value cid"
  then obtain r where f: "find (\<lambda>r. BdevName r = Value cid) ?ds = Some r"
    by (cases "find (\<lambda>r. BdevName r = Value cid) ?ds") (auto simp: find_None_iff)
  then obtain i where i: "i < length ?ds" "BdevName (?ds ! i) = Value cid" "r = ?ds ! i"
    "\<forall>j<i. BdevName (?ds ! j) \<noteq> Value cid"
    unfolding find_Some_iff by blast
  have run: "VirtioBlkStats lib bk s req =
                 (Inr \<lparr>stats_Id = Some cid,
                        Stats = Some \<lparr>ReadOpsCount = ucast (ReadIos (?ds ! i)),
                                       WriteOpsCount = ucast (WriteIos (?ds ! i))\<rparr>\<rparr>,
                  rpc_Call Call_controller_virtio_blk_get_iostat s)"
    using VirtioBlkStats_run [OF assms, of s] f i(3) by (simp add: int32_of_int_def)
  have keep: "sint (ucast x :: int32) = sint x"
    if "- (2 ^ 31) \<le> sint x \<and> sint x < 2 ^ 31" for x :: go_int
    using sint_int32_of_int [of x] that by (simp add: int32_of_int_def)
  show "\<exists>i<length ?ds.
               BdevName (?ds ! i) = Value cid \<and>
               (\<forall>j<i. BdevName (?ds ! j) \<noteq> Value cid) \<and>
               VirtioBlkStats lib bk s req =
                 (Inr \<lparr>stats_Id = Some cid,
                        Stats = Some \<lparr>ReadOpsCount = ucast (ReadIos (?ds ! i)),
                                       WriteOpsCount = ucast (WriteIos (?ds ! i))\<rparr>\<rparr>,
                  rpc_Call Call_controller_virtio_blk_get_iostat s) \<and>
               (- (2 ^ 31) \<le> sint (ReadIos (?ds ! i)) \<and> sint (ReadIos (?ds ! i)) < 2 ^ 31 \<longrightarrow>
                  sint (ucast (ReadIos (?ds ! i)) :: int32) = sint (ReadIos (?ds ! i))) \<and>
               (- (2 ^ 31) \<le> sint (WriteIos (?ds ! i)) \<and> sint (WriteIos (?ds ! i)) < 2 ^ 31 \<longrightarrow>
                  sint (ucast (WriteIos (?ds ! i)) :: int32) = sint (WriteIos (?ds ! i)))"
    using i(1,2,4) run keep by blast
next
  assume "\<forall>r\<in>set (all_bdevs result). BdevName r \<noteq> Value cid"
  then have "find (\<lambda>r. BdevName r = Value cid) (all_bdevs result) = None"
    by (simp add: find_None_iff)
  then show "VirtioBlkStats lib bk s req =
              (Inl (InvalidArgument (''Could not find Controller: '' @ Value cid)),
               rpc_Call Call_controller_virtio_blk_get_iostat s)"
    using VirtioBlkStats_run [OF assms, of s] by simp
qed

text \<open>
  In \<open>stats0\<close> the device \<open>b\<close> is the second device of the second controller, with 5
  reads and 6 writes; no device is named \<open>z\<close>.
\<close>

theorem VirtioBlkStats_lookup_witness:
  "VirtioBlkStats lib0 (bk0 [] True) server0 (stats_req0 ''b'') =
     (Inr \<lparr>stats_Id = Some \<lparr>Value = ''b''\<rparr>,
            Stats = Some \<lparr>ReadOpsCount = 5, WriteOpsCount = 6\<rparr>\<rparr>,
      rpc_Call Call_controller_virtio_blk_get_iostat server0) \<and>
   sint (5 :: int32) = sint (5 :: go_int) \<and> sint (6 :: int32) = sint (6 :: go_int) \<and>
   VirtioBlkStats lib0 (bk0 [] True) server0 (stats_req0 ''z'') =
     (Inl (InvalidArgument ''Could not find Controller: z''),
      rpc_Call Call_controller_virtio_blk_get_iostat server0)"
proof -
  have c: "ControllerId (stats_req0 n) = Some \<lparr>Value = n\<rparr>" for n by (simp add: stats_req0_def)
  have v: "resourcename_Validate lib0 (Value \<lparr>Value = ''b''\<rparr>) = None"
          "resourcename_Validate lib0 (Value \<lparr>Value = ''z''\<rparr>) = None"
    by (simp_all add: lib0_def nonempty_def)
  have g: "controller_virtio_blk_get_iostat (bk0 [] True) = Inr stats0" by (simp add: bk0_def)
  have len: "length (all_bdevs stats0) = 3" by (simp add: all_bdevs_def stats0_def)
  have nth: "all_bdevs stats0 ! 0 = \<lparr>BdevName = ''x'', ReadIos = 1, WriteIos = 2\<rparr>"
            "all_bdevs stats0 ! Suc 0 = \<lparr>BdevName = ''y'', ReadIos = 3, WriteIos = 4\<rparr>"
            "all_bdevs stats0 ! 2 = \<lparr>BdevName = ''b'', ReadIos = 5, WriteIos = 6\<rparr>"
    by (simp_all add: all_bdevs_def stats0_def)
  have ex: "\<exists>r\<in>set (all_bdevs stats0). BdevName r = Value \<lparr>Value = ''b''\<rparr>"
    by (simp add: all_bdevs_def stats0_def)
  have no: "\<forall>r\<in>set (all_bdevs stats0). BdevName r \<noteq> Value \<lparr>Value = ''z''\<rparr>"
    by (simp add: all_bdevs_def stats0_def)
  from VirtioBlkStats_lookup [OF c v(1) g, of server0] ex
  obtain i where i: "i < length (all_bdevs stats0)"
      "BdevName (all_bdevs stats0 ! i) = Value \<lparr>Value = ''b''\<rparr>"
      "VirtioBlkStats lib0 (bk0 [] True) server0 (stats_req0 ''b'') =
         (Inr \<lparr>stats_Id = Some \<lparr>Value = ''b''\<rparr>,
                Stats = Some \<lparr>ReadOpsCount = ucast (ReadIos (all_bdevs stats0 ! i)),
                               WriteOpsCount = ucast (WriteIos (all_bdevs stats0 ! i))\<rparr>\<rparr>,
          rpc_Call Call_controller_virtio_blk_get_iostat server0)"
      "- (2 ^ 31) \<le> sint (ReadIos (all_bdevs stats0 ! i)) \<and>
       sint (ReadIos (all_bdevs stats0 ! i)) < 2 ^ 31 \<longrightarrow>
         sint (ucast (ReadIos (all_bdevs stats0 ! i)) :: int32) = sint (ReadIos (all_bdevs stats0 ! i))"
      "- (2 ^ 31) \<le> sint (WriteIos (all_bdevs stats0 ! i)) \<and>
       sint (WriteIos (all_bdevs stats0 ! i)) < 2 ^ 31 \<longrightarrow>
         sint (ucast (WriteIos (all_bdevs stats0 ! i)) :: int32) = sint (WriteIos (all_bdevs stats0 ! i))"
    by blast
  from i(1) len have "i = 0 \<or> i = Suc 0 \<or> i = 2" by arith
  with i(2) have i2: "i = 2" by (auto simp: nth)
  from i(3) i2 have 1: "VirtioBlkStats lib0 (bk0 [] True) server0 (stats_req0 ''b'') =
     (Inr \<lparr>stats_Id = Some \<lparr>Value = ''b''\<rparr>,
            Stats = Some \<lparr>ReadOpsCount = 5, WriteOpsCount = 6\<rparr>\<rparr>,
      rpc_Call Call_controller_virtio_blk_get_iostat server0)"
    by (simp add: nth)
  from i(4,5) i2 have r: "sint (5 :: int32) = sint (5 :: go_int)" "sint (6 :: int32) = sint (6 :: go_int)"
    by (simp_all add: nth)
  have 2: "VirtioBlkStats lib0 (bk0 [] True) server0 (stats_req0 ''z'') =
     (Inl (InvalidArgument ''Could not find Controller: z''),
      rpc_Call Call_controller_virtio_blk_get_iostat server0)"
    using VirtioBlkStats_lookup [OF c v(2) g, of server0] no by simp
  from 1 r 2 show ?thesis by blast
qed

text \<open>
  The claim as it was stated, that Stats returns the counts of the entry, fails for a
  count beyond the range of \<^verbatim>\<open>int32\<close>: for the device \<open>b\<close> of \<open>stats_wrap\<close>, with
  \<open>2 ^ 31 = 2147483648\<close> reads, the response carries the read count \<open>- 2147483648\<close>.
\<close>

theorem VirtioBlkStats_count_counterexample:
  "VirtioBlkStats lib0 (bk_stats stats_wrap) server0 (stats_req0 ''b'') =
     (Inr \<lparr>stats_Id = Some \<lparr>Value = ''b''\<rparr>,
            Stats = Some \<lparr>ReadOpsCount = - 2147483648, WriteOpsCount = 6\<rparr>\<rparr>,
      rpc_Call Call_controller_virtio_blk_get_iostat server0) \<and>
   sint (- 2147483648 :: int32) = - 2147483648 \<and>
   sint (2147483648 :: go_int) = 2147483648"
  by (simp add: VirtioBlkStats_def lib0_def nonempty_def bk_stats_def bk0_def stats_wrap_def
      stats_req0_def rpc_Call_def int32_of_int_def Let_def)

subsection \<open>The volume reference of listed and fetched controllers\<close>

text \<open>
  C10. Every controller in a successful List response, and the controller of a successful
  Get response, has the placeholder \<open>TBD\<close> as its \<open>VolumeId\<close>, whatever the backend
  lists and whatever the registry holds.
\<close>

theorem VolumeId_placeholder:
  "(ListVirtioBlks lib bk uuid s req = (Inr resp, s') \<longrightarrow>
      (\<forall>b\<in>set (VirtioBlks resp). VolumeId b = Some \<lparr>Value = ''TBD''\<rparr>)) \<and>
   (GetVirtioBlk lib bk2 s2 req2 = (Inr b2, s2') \<longrightarrow> VolumeId b2 = Some \<lparr>Value = ''TBD''\<rparr>)"
proof (intro conjI impI)
  assume "ListVirtioBlks lib bk uuid s req = (Inr resp, s')"
  from ListVirtioBlks_success [OF this] obtain window where
    "VirtioBlks resp = sortVirtioBlks (map (virtioBlk_of lib) (filter is_virtio_blk window))"
    by auto
  then show "\<forall>b\<in>set (VirtioBlks resp). VolumeId b = Some \<lparr>Value = ''TBD''\<rparr>"
    by (auto simp: set_sortVirtioBlks virtioBlk_of_def)
next
  assume "GetVirtioBlk lib bk2 s2 req2 = (Inr b2, s2')"
  from GetVirtioBlk_success [OF this] show "VolumeId b2 = Some \<lparr>Value = ''TBD''\<rparr>"
    by (auto simp: virtioBlk_of_def)
qed

text \<open>
  The two controllers of the page of \<open>listing0\<close> and the controller that Get returns for
  \<open>name0\<close> have \<open>TBD\<close>, while the registry holds \<open>Malloc42\<close> for \<open>name0\<close>.
\<close>

theorem VolumeId_placeholder_witness:
  "VolumeId (virtioBlk_of lib0 \<lparr>result_Name = ''b'', Type = ''virtio_blk'', PciIndex = 1\<rparr>) =
     Some \<lparr>Value = ''TBD''\<rparr> \<and>
   VolumeId (virtioBlk_of lib0 \<lparr>result_Name = ''c'', Type = ''virtio_blk'', PciIndex = 2\<rparr>) =
     Some \<lparr>Value = ''TBD''\<rparr> \<and>
   fst (GetVirtioBlk lib0 (bk0 [] True) server1 (get0 name0)) =
     Inr (virtioBlk_of lib0 \<lparr>result_Name = ''b'', Type = ''virtio_blk'', PciIndex = 1\<rparr>) \<and>
   VirtioCtrls server1 name0 = Some (blk0\<lparr>Name := name0\<rparr>) \<and>
   VolumeId (blk0\<lparr>Name := name0\<rparr>) = Some \<lparr>Value = ''Malloc42''\<rparr>"
proof -
  have "\<forall>b\<in>set [virtioBlk_of lib0 \<lparr>result_Name = ''b'', Type = ''virtio_blk'', PciIndex = 1\<rparr>,
                 virtioBlk_of lib0 \<lparr>result_Name = ''c'', Type = ''virtio_blk'', PciIndex = 2\<rparr>].
          VolumeId b = Some \<lparr>Value = ''TBD''\<rparr>"
    using VolumeId_placeholder [where lib = lib0 and bk = "bk0 [] True" and uuid = "''t1''"
                                  and s = server0 and req = "list0 3 []"]
      ListVirtioBlks_run0 by simp
  moreover have "VolumeId (virtioBlk_of lib0 \<lparr>result_Name = ''b'', Type = ''virtio_blk'', PciIndex = 1\<rparr>) =
      Some \<lparr>Value = ''TBD''\<rparr>"
    using VolumeId_placeholder [where lib = lib0 and ?bk2.0 = "bk0 [] True" and ?s2.0 = server1
                                  and ?req2.0 = "get0 name0"]
      GetVirtioBlk_run0 by simp
  moreover have "VirtioCtrls server1 name0 = Some (blk0\<lparr>Name := name0\<rparr>)"
    by (simp add: server1_def server0_def)
  moreover have "VolumeId (blk0\<lparr>Name := name0\<rparr>) = Some \<lparr>Value = ''Malloc42''\<rparr>"
    by (simp add: blk0_def)
  ultimately show ?thesis by (simp add: GetVirtioBlk_run0)
qed

end
